theory Spec2Isabelle
  imports Main
begin

section \<open>Python strings\<close>

text \<open>
  A Python \<^verbatim>\<open>str\<close> is modelled as a \<^typ>\<open>string\<close>: the character numbered \<open>n\<close> stands for
  the code point \<open>n\<close>, so the model covers text whose code points are below 256. The
  operations below are the \<^verbatim>\<open>str\<close> methods the repository calls, with Python's
  behaviour on those code points.
\<close>

definition nl :: char where
  "nl = CHR 0x0A"

text \<open>\<^verbatim>\<open>s.startswith(p)\<close> and \<^verbatim>\<open>s.endswith(p)\<close>.\<close>

definition startswith :: "string \<Rightarrow> string \<Rightarrow> bool" where
  "startswith s p = (take (length p) s = p)"

definition endswith :: "string \<Rightarrow> string \<Rightarrow> bool" where
  "endswith s p = (length p \<le> length s \<and> drop (length s - length p) s = p)"

text \<open>\<^verbatim>\<open>sub in s\<close>: \<open>sub\<close> occurs in \<open>s\<close> at some position.\<close>

fun py_in :: "string \<Rightarrow> string \<Rightarrow> bool" where
  "py_in sub [] = (sub = [])"
| "py_in sub (c # cs) = (startswith (c # cs) sub \<or> py_in sub cs)"

text \<open>\<^verbatim>\<open>c.isspace()\<close> on the code points below 256.\<close>

definition isspace :: "char \<Rightarrow> bool" where
  "isspace c = ((of_char c :: nat) \<in> set [9, 10, 11, 12, 13, 28, 29, 30, 31, 32, 133, 160])"

text \<open>\<^verbatim>\<open>s.strip()\<close> removes the white space at both ends.\<close>

definition strip :: "string \<Rightarrow> string" where
  "strip s = rev (dropWhile isspace (rev (dropWhile isspace s)))"

text \<open>\<^verbatim>\<open>s.lower()\<close>: on the code points below 256 it works character by character.\<close>

definition lower_char :: "char \<Rightarrow> char" where
  "lower_char c =
     (let n = (of_char c :: nat)
      in if (65 \<le> n \<and> n \<le> 90) \<or> (192 \<le> n \<and> n \<le> 222 \<and> n \<noteq> 215)
         then char_of (n + 32) else c)"

definition lower :: "string \<Rightarrow> string" where
  "lower s = map lower_char s"

text \<open>\<^verbatim>\<open>s.split(sep)\<close> for a separator of one character: never an empty list.\<close>

fun split_on :: "char \<Rightarrow> string \<Rightarrow> string list" where
  "split_on sep [] = [[]]"
| "split_on sep (c # cs) =
     (if c = sep then [] # split_on sep cs
      else (case split_on sep cs of
              [] \<Rightarrow> [[c]]
            | l # ls \<Rightarrow> (c # l) # ls))"

text \<open>\<^verbatim>\<open>str(n)\<close> for a length: the decimal digits.\<close>

fun str_nat :: "nat \<Rightarrow> string" where
  "str_nat n =
     (if n < 10 then [char_of (48 + n)]
      else str_nat (n div 10) @ [char_of (48 + n mod 10)])"

declare str_nat.simps [simp del]

section \<open>The document generator (\<^verbatim>\<open>DocumentGeneratorTool\<close>)\<close>

text \<open>
  The word-processor document is the list of blocks the code adds to it, in order:
  \<^verbatim>\<open>add_heading(text, level)\<close> and \<^verbatim>\<open>add_paragraph(text)\<close>.
\<close>

datatype block = Heading nat string | Paragraph string

definition add_heading :: "block list \<Rightarrow> string \<Rightarrow> nat \<Rightarrow> block list" where
  "add_heading doc text level = doc @ [Heading level text]"

definition add_paragraph :: "block list \<Rightarrow> string \<Rightarrow> block list" where
  "add_paragraph doc text = doc @ [Paragraph text]"

text \<open>The body of the loop over the lines, with the tests in the order of the source.\<close>

definition render_line :: "block list \<Rightarrow> string \<Rightarrow> block list" where
  "render_line doc line =
     (if startswith line ''# '' then add_heading doc (drop 2 line) 1
      else if startswith line ''## '' then add_heading doc (drop 3 line) 2
      else if startswith line ''### '' then add_heading doc (drop 4 line) 3
      else if strip line \<noteq> [] then add_paragraph doc line
      else doc)"

definition build_document :: "string \<Rightarrow> block list" where
  "build_document content =
     foldl render_line (add_heading [] ''Documentation Package'' 0) (split_on nl content)"

text \<open>
  The heading markers as the specification lists them, and the blocks of one line when the
  markers are tried in the order of a list \<open>ms\<close>: the first marker of \<open>ms\<close> that the line
  starts with decides.
\<close>

definition markers :: "(string \<times> nat) list" where
  "markers = [(''### '', 3), (''## '', 2), (''# '', 1)]"

definition spec_line_blocks :: "(string \<times> nat) list \<Rightarrow> string \<Rightarrow> block list" where
  "spec_line_blocks ms line =
     (case find (\<lambda>m. startswith line (fst m)) ms of
        Some m \<Rightarrow> [Heading (snd m) (drop (length (fst m)) line)]
      | None \<Rightarrow> if strip line \<noteq> [] then [Paragraph line] else [])"

text \<open>
  Files. The disk maps a path to what the file at that path holds. Every failure of the
  file system and of the document library is a Python \<^verbatim>\<open>Exception\<close>, kept with its
  \<^verbatim>\<open>str(e)\<close>.
\<close>

datatype exn = Exception string

datatype file_data = Text string | Docx "block list" | Incomplete

type_synonym disk = "string \<rightharpoonup> file_data"

text \<open>
  How a write to a path ends. \<open>Written\<close>: the file holds the data. \<open>Refused e\<close>: \<open>e\<close> was
  raised before the file was opened for writing, and the file is as it was.
  \<open>Interrupted left e\<close>: the file was opened for writing, which creates it or empties the
  one that was there, and \<open>e\<close> was raised before the data was complete; \<open>left\<close> tells what
  the file holds now.
\<close>

datatype 'a write_result = Written | Refused exn | Interrupted 'a exn

fun raised :: "'a write_result \<Rightarrow> exn option" where
  "raised Written = None"
| "raised (Refused e) = Some e"
| "raised (Interrupted left e) = Some e"

text \<open>
  What the run meets outside the code, as the environment decides it:
  \<^item> \<open>write_text path s\<close>: how \<^verbatim>\<open>open(path, 'w', encoding='utf-8')\<close> with \<^verbatim>\<open>f.write(s)\<close>
    ends; an interrupted write leaves the first \<open>left\<close> characters of \<open>s\<close>;
  \<^item> \<open>build_error s\<close>: the exception of the document library while the document is built
    in memory from the content \<open>s\<close>, if it raises;
  \<^item> \<open>save_docx path doc\<close>: how \<^verbatim>\<open>doc.save(path)\<close> ends; an interrupted save leaves an
    incomplete file.
\<close>

record environment =
  write_text :: "string \<Rightarrow> string \<Rightarrow> nat write_result"
  build_error :: "string \<Rightarrow> exn option"
  save_docx :: "string \<Rightarrow> block list \<Rightarrow> unit write_result"

definition write_text_file ::
  "environment \<Rightarrow> disk \<Rightarrow> string \<Rightarrow> string \<Rightarrow> exn option \<times> disk" where
  "write_text_file env d path s =
     (case write_text env path s of
        Written \<Rightarrow> (None, d(path \<mapsto> Text s))
      | Refused e \<Rightarrow> (Some e, d)
      | Interrupted left e \<Rightarrow> (Some e, d(path \<mapsto> Text (take left s))))"

definition save_document ::
  "environment \<Rightarrow> disk \<Rightarrow> string \<Rightarrow> block list \<Rightarrow> exn option \<times> disk" where
  "save_document env d path doc =
     (case save_docx env path doc of
        Written \<Rightarrow> (None, d(path \<mapsto> Docx doc))
      | Refused e \<Rightarrow> (Some e, d)
      | Interrupted left e \<Rightarrow> (Some e, d(path \<mapsto> Incomplete)))"

text \<open>
  The body of the \<^verbatim>\<open>try\<close> block of \<^verbatim>\<open>_run\<close>: the markdown file, then the document built in
  memory, then its file. The first exception ends the block.
\<close>

definition generate_body ::
  "environment \<Rightarrow> disk \<Rightarrow> string \<Rightarrow> string \<Rightarrow> (exn + string) \<times> disk" where
  "generate_body env d content project_name =
     (let md_path = project_name @ ''.md'' in
      case write_text_file env d md_path content of
        (Some e, d1) \<Rightarrow> (Inl e, d1)
      | (None, d1) \<Rightarrow>
          (let docx_path = project_name @ ''.docx'' in
           case build_error env content of
             Some e \<Rightarrow> (Inl e, d1)
           | None \<Rightarrow>
               (let doc = build_document content in
                case save_document env d1 docx_path doc of
                  (Some e, d2) \<Rightarrow> (Inl e, d2)
                | (None, d2) \<Rightarrow>
                    (Inr (''Files generated successfully:'' @ [nl] @ ''- '' @ md_path
                          @ [nl] @ ''- '' @ docx_path), d2))))"

text \<open>
  \<^verbatim>\<open>_run\<close>: \<^verbatim>\<open>except Exception as e\<close> turns a raised exception into the returned string.
  The result is \<open>Inl\<close> when an exception leaves the function, \<open>Inr\<close> when it returns.
\<close>

definition generate_documents_run ::
  "environment \<Rightarrow> disk \<Rightarrow> string \<Rightarrow> string \<Rightarrow> (exn + string) \<times> disk" where
  "generate_documents_run env d content project_name =
     (case generate_body env d content project_name of
        (Inl (Exception msg), d') \<Rightarrow> (Inr ('' Error generating files: '' @ msg), d')
      | (Inr s, d') \<Rightarrow> (Inr s, d'))"

section \<open>The codebase scanner (\<^verbatim>\<open>CodebaseAnalyzerTool\<close>)\<close>

text \<open>The dictionary \<^verbatim>\<open>result\<close> that \<^verbatim>\<open>_run\<close> fills in and returns.\<close>

record analysis_record =
  language :: string
  files :: "string list"
  endpoints :: "string list"
  auth_methods :: "string list"
  databases :: "string list"
  security_issues :: "string list"
  architecture :: string

text \<open>
  What the scan observes of the file system:
  \<^item> \<open>walk start\<close> is what \<^verbatim>\<open>os.walk(start)\<close> yields, the triples (root, directories, files) in
    its order (nothing for a path that cannot be listed: \<^verbatim>\<open>os.walk\<close> ignores those errors);
  \<^item> \<open>read_text path\<close> is the outcome of
    \<^verbatim>\<open>open(path, 'r', encoding='utf-8', errors='ignore')\<close> followed by \<^verbatim>\<open>read()\<close>;
  \<^item> \<open>read_lines path\<close> is the outcome of iterating \<^verbatim>\<open>open(path)\<close> to its end: the lines,
    each with its line end, or the exception of the open or of the decoding.
\<close>

record world =
  walk :: "string \<Rightarrow> (string \<times> string list \<times> string list) list"
  read_text :: "string \<Rightarrow> exn + string"
  read_lines :: "string \<Rightarrow> exn + string list"

definition initial_result :: analysis_record where
  "initial_result =
     \<lparr>language = ''unknown'', files = [], endpoints = [], auth_methods = [], databases = [],
      security_issues = [], architecture = ''Not detected''\<rparr>"

definition source_extensions :: "string list" where
  "source_extensions = [''.py'', ''.js'', ''.ts'', ''.java'', ''.go'', ''.cs'']"

definition eligible :: "string \<Rightarrow> bool" where
  "eligible file = list_ex (endswith file) source_extensions"

text \<open>\<^verbatim>\<open>os.path.join(root, file)\<close> of \<^verbatim>\<open>posixpath\<close>.\<close>

definition path_join :: "string \<Rightarrow> string \<Rightarrow> string" where
  "path_join a b =
     (if startswith b ''/'' then b
      else if a = [] \<or> endswith a ''/'' then a @ b
      else a @ ''/'' @ b)"

definition web_markers :: "string list" where
  "web_markers = [''fastapi'', ''flask'', ''@app.route'', ''router.'']"

definition auth_markers :: "string list" where
  "auth_markers = [''jwt'', ''oauth'', ''passport'', ''auth0'']"

definition is_endpoint_line :: "string \<Rightarrow> bool" where
  "is_endpoint_line l = (py_in ''get('' l \<or> py_in ''post('' l)"

text \<open>The three tests that follow the web-framework test inside the \<^verbatim>\<open>with\<close> block.\<close>

definition inspect_rest :: "string \<Rightarrow> string \<Rightarrow> analysis_record \<Rightarrow> analysis_record" where
  "inspect_rest file content r =
     (let r1 = (if py_in ''express'' content then r\<lparr>language := ''Node.js Express''\<rparr> else r);
          r2 = (if list_ex (\<lambda>x. py_in x content) auth_markers
                then r1\<lparr>auth_methods := auth_methods r1 @ [''OAuth/JWT detected'']\<rparr> else r1)
      in if py_in ''password'' content \<and> (py_in ''='' content \<or> py_in ''hardcoded'' content)
         then r2\<lparr>security_issues := security_issues r2 @ [''Possible secret in '' @ file]\<rparr>
         else r2)"

text \<open>
  The \<^verbatim>\<open>try\<close> block with its \<^verbatim>\<open>except: pass\<close>: an exception of either read ends the block
  and keeps what \<^verbatim>\<open>result\<close> holds at that point.
\<close>

definition inspect_file :: "world \<Rightarrow> string \<Rightarrow> string \<Rightarrow> analysis_record \<Rightarrow> analysis_record" where
  "inspect_file w path file r =
     (case read_text w path of
        Inl e \<Rightarrow> r
      | Inr raw \<Rightarrow>
          (let content = lower raw in
           if list_ex (\<lambda>x. py_in x content) web_markers
           then (let r1 = r\<lparr>language := ''Python Web''\<rparr> in
                 case read_lines w path of
                   Inl e \<Rightarrow> r1
                 | Inr ls \<Rightarrow>
                     inspect_rest file content
                       (r1\<lparr>endpoints := endpoints r1 @ map strip (filter is_endpoint_line ls)\<rparr>))
           else inspect_rest file content r))"

definition scan_file :: "world \<Rightarrow> string \<Rightarrow> analysis_record \<Rightarrow> string \<Rightarrow> analysis_record" where
  "scan_file w root r file =
     (if eligible file
      then (let path = path_join root file
            in inspect_file w path file (r\<lparr>files := files r @ [path]\<rparr>))
      else r)"

definition scan_dir ::
  "world \<Rightarrow> analysis_record \<Rightarrow> string \<times> string list \<times> string list \<Rightarrow> analysis_record" where
  "scan_dir w r t = foldl (scan_file w (fst t)) r (snd (snd t))"

definition scan_tree :: "world \<Rightarrow> string \<Rightarrow> analysis_record \<Rightarrow> analysis_record" where
  "scan_tree w start r = foldl (scan_dir w) r (walk w start)"

definition summarize :: "analysis_record \<Rightarrow> analysis_record" where
  "summarize r =
     r\<lparr>architecture := str_nat (length (files r)) @ '' files | '' @ language r @ '' | ''
          @ str_nat (length (endpoints r)) @ '' endpoints''\<rparr>"

text \<open>
  \<^verbatim>\<open>_run\<close>. The archive library is a parameter: \<open>extractall w zip dir\<close> is the world after
  \<^verbatim>\<open>ZipFile(zip).extractall(dir)\<close> and the exception it raised, if any; that exception
  leaves \<^verbatim>\<open>_run\<close>. A scan of a directory writes nothing.
\<close>

definition analyze_codebase_run ::
  "(world \<Rightarrow> string \<Rightarrow> string \<Rightarrow> exn option \<times> world) \<Rightarrow> world \<Rightarrow> string
     \<Rightarrow> (exn + analysis_record) \<times> world" where
  "analyze_codebase_run extractall w codebase_path =
     (let extract_dir = ''temp_codebase'' in
      if endswith codebase_path ''.zip''
      then (case extractall w codebase_path extract_dir of
              (Some e, w') \<Rightarrow> (Inl e, w')
            | (None, w') \<Rightarrow> (Inr (summarize (scan_tree w' extract_dir initial_result)), w'))
      else (Inr (summarize (scan_tree w codebase_path initial_result)), w))"

text \<open>Two scans in a row, the second in the world the first one left.\<close>

definition scan_twice ::
  "(world \<Rightarrow> string \<Rightarrow> string \<Rightarrow> exn option \<times> world) \<Rightarrow> world \<Rightarrow> string
     \<Rightarrow> (exn + analysis_record) \<times> (exn + analysis_record)" where
  "scan_twice extractall w codebase_path =
     (case analyze_codebase_run extractall w codebase_path of
        (first, w1) \<Rightarrow>
          (case analyze_codebase_run extractall w1 codebase_path of
             (second, w2) \<Rightarrow> (first, second)))"

text \<open>
  The directory at \<open>start\<close> holds the same in two worlds: the walk from it is the same, and
  each source file the walk lists reads the same.
\<close>

definition same_contents :: "world \<Rightarrow> world \<Rightarrow> string \<Rightarrow> bool" where
  "same_contents w1 w2 start =
     (walk w2 start = walk w1 start
      \<and> list_all
          (\<lambda>t. list_all
                 (\<lambda>file. eligible file \<longrightarrow>
                    read_text w2 (path_join (fst t) file) = read_text w1 (path_join (fst t) file)
                    \<and> read_lines w2 (path_join (fst t) file)
                        = read_lines w1 (path_join (fst t) file))
                 (snd (snd t)))
          (walk w1 start))"

text \<open>Some read of the \<^verbatim>\<open>try\<close> block raises for the file at \<open>path\<close>.\<close>

definition read_error :: "world \<Rightarrow> string \<Rightarrow> bool" where
  "read_error w path =
     (case read_text w path of
        Inl e \<Rightarrow> True
      | Inr raw \<Rightarrow>
          list_ex (\<lambda>x. py_in x (lower raw)) web_markers \<and> isl (read_lines w path))"

section \<open>The workflow driver (\<^verbatim>\<open>main.py\<close>)\<close>

text \<open>
  The dictionary a workflow returns; a key that is absent is \<open>None\<close>.
\<close>

record analysis_dict =
  d_files :: "string list"
  d_api_endpoints :: "string list"
  d_security_findings :: "string list"

datatype analysis_value = AnalysisDict analysis_dict | NotADict

record workflow_result =
  status :: string
  error :: "string option"
  documentation :: "string option"
  analysis :: "analysis_value option"
  rendered_files :: "string list option"
  thread_id :: "string option"
  run_id :: "string option"
  preview :: "string option"

definition error_result :: "string \<Rightarrow> workflow_result" where
  "error_result msg =
     \<lparr>status = ''error'', error = Some msg, documentation = None, analysis = None,
      rendered_files = None, thread_id = None, run_id = None, preview = None\<rparr>"

text \<open>
  The module \<^verbatim>\<open>tools\<close> is not among the sources, so its two functions are parameters, with
  the two library calls of the fallback: \<^verbatim>\<open>os.path.exists\<close> and the formatted
  \<^verbatim>\<open>datetime.now()\<close>. Rendering acts on a state \<open>'w\<close> (the output directory); an analysis
  returns a dictionary of lists of strings under the keys the driver reads, or something
  that is no dictionary.
\<close>

record 'w tools =
  path_exists :: "string \<Rightarrow> bool"
  analyze_codebase_advanced :: "string \<Rightarrow> exn + analysis_value"
  render_documents_advanced :: "string \<Rightarrow> string \<Rightarrow> 'w \<Rightarrow> (exn + string list) \<times> 'w"
  now :: string

text \<open>\<^verbatim>\<open>chr(10).join(xs)\<close>.\<close>

fun join_nl :: "string list \<Rightarrow> string" where
  "join_nl [] = []"
| "join_nl [x] = x"
| "join_nl (x # y # ys) = x @ [nl] @ join_nl (y # ys)"

text \<open>
  The template of the fallback, line by line; every line of the f-string ends with a line
  feed. \<open>d\<close> is \<^verbatim>\<open>analysis_dict\<close>: a key that is absent reads as the empty list.
\<close>

definition fallback_lines :: "string \<Rightarrow> analysis_dict \<Rightarrow> string \<Rightarrow> string list" where
  "fallback_lines prompt d date =
      [''# Documentation Package'',
       [],
       ''## Project Overview'',
       ''Generated based on: '' @ prompt,
       [],
       ''## Business Requirements Document (BRD)'',
       [],
       ''### Executive Summary'',
       ''This document outlines the business requirements for the system.'',
       [],
       ''### Stakeholders'',
       ''- Development Team'',
       ''- Product Management'',
       ''- Quality Assurance'',
       ''- Security Team'',
       [],
       ''### Business Objectives'',
       ''1. Deliver high-quality documentation'',
       ''2. Ensure comprehensive coverage'',
       ''3. Maintain security standards'',
       ''4. Enable efficient onboarding'',
       [],
       ''## Functional Requirements Document (FRD)'',
       [],
       ''### System Architecture'',
       (if d_files d \<noteq> [] then ''Architecture based on analyzed codebase''
        else ''Template architecture - customize based on your system''),
       [],
       ''### Core Features'',
       ''1. **Feature 1**: Description'',
       ''2. **Feature 2**: Description'',
       ''3. **Feature 3**: Description'',
       [],
       ''### API Endpoints'',
       (if d_api_endpoints d \<noteq> []
        then ''Detected '' @ str_nat (length (d_api_endpoints d)) @ '' API endpoints''
        else ''Define your API endpoints here''),
       [],
       ''## Non-Functional Requirements Document (NFRD)'',
       [],
       ''### Performance Requirements'',
       ''- Response Time: < 200ms for API calls'',
       ''- Throughput: 1000 requests/second'',
       ''- Availability: 99.9% uptime'',
       [],
       ''### Security Requirements'',
       ''- Authentication: OAuth 2.0 / JWT'',
       ''- Authorization: Role-Based Access Control (RBAC)'',
       ''- Encryption: TLS 1.3 for data in transit'',
       ''- Data Protection: AES-256 for data at rest'',
       [],
       (if d_security_findings d \<noteq> [] then ''### Security Findings'' else []),
       join_nl (map (\<lambda>finding. ''- '' @ finding) (take 5 (d_security_findings d))),
       [],
       ''### Scalability'',
       ''- Horizontal scaling capability'',
       ''- Load balancing'',
       ''- Caching strategy'',
       [],
       ''## Compliance & Standards'',
       ''- GDPR compliance'',
       ''- SOC 2 Type II'',
       ''- ISO 27001'',
       [],
       ''## Architecture Overview'',
       [],
       ''### Technology Stack'',
       (if d_files d \<noteq> []
        then ''Python: '' @ str_nat (length (filter (\<lambda>f. endswith f ''.py'') (d_files d))) @ '' files''
        else ''Define your tech stack''),
       [],
       ''### Deployment Architecture'',
       ''- Cloud Platform: Azure'',
       ''- Container Orchestration: Kubernetes'',
       ''- CI/CD: GitHub Actions'',
       [],
       ''---'',
       ''Generated by Azure AI Foundry Documentation Agent'',
       ''Date: '' @ date]"

definition fallback_documentation :: "string \<Rightarrow> analysis_dict \<Rightarrow> string \<Rightarrow> string" where
  "fallback_documentation prompt d date =
     concat (map (\<lambda>l. l @ [nl]) (fallback_lines prompt d date))"

definition empty_analysis :: analysis_dict where
  "empty_analysis = \<lparr>d_files = [], d_api_endpoints = [], d_security_findings = []\<rparr>"

text \<open>
  Step 1 of the fallback: the analysis dictionary the template reads and the value stored
  under \<^verbatim>\<open>"analysis"\<close>, or the exception the analysis raised. A path that is \<^verbatim>\<open>None\<close> or
  the empty string is false in Python, and then no analysis runs.
\<close>

definition local_analysis ::
  "'w tools \<Rightarrow> string option \<Rightarrow> exn + (analysis_dict \<times> analysis_value option)" where
  "local_analysis t codebase_path =
     (case codebase_path of
        None \<Rightarrow> Inr (empty_analysis, None)
      | Some p \<Rightarrow>
          if p \<noteq> [] \<and> path_exists t p
          then (case analyze_codebase_advanced t p of
                  Inl e \<Rightarrow> Inl e
                | Inr a \<Rightarrow>
                    Inr (case a of AnalysisDict d \<Rightarrow> d | NotADict \<Rightarrow> empty_analysis, Some a))
          else Inr (empty_analysis, None))"

text \<open>The \<^verbatim>\<open>try\<close> block of \<^verbatim>\<open>run_fallback_workflow\<close>: \<open>Inl\<close> is the exception it raises.\<close>

definition fallback_body ::
  "'w tools \<Rightarrow> string \<Rightarrow> string option \<Rightarrow> 'w \<Rightarrow> (exn + workflow_result) \<times> 'w" where
  "fallback_body t prompt codebase_path w =
     (case local_analysis t codebase_path of
        Inl e \<Rightarrow> (Inl e, w)
      | Inr (d, a) \<Rightarrow>
          (let doc = fallback_documentation prompt d (now t) in
           case render_documents_advanced t doc ''./outputs'' w of
             (Inl e, w') \<Rightarrow> (Inl e, w')
           | (Inr fs, w') \<Rightarrow>
               (Inr \<lparr>status = ''success_fallback'', error = None, documentation = Some doc,
                     analysis = a, rendered_files = Some fs, thread_id = None, run_id = None,
                     preview = None\<rparr>, w')))"

definition run_fallback_workflow ::
  "'w tools \<Rightarrow> string \<Rightarrow> string option \<Rightarrow> 'w \<Rightarrow> workflow_result \<times> 'w" where
  "run_fallback_workflow t prompt codebase_path w =
     (case fallback_body t prompt codebase_path w of
        (Inl (Exception msg), w') \<Rightarrow> (error_result msg, w')
      | (Inr res, w') \<Rightarrow> (res, w'))"

text \<open>
  The hosted agent service, as \<^verbatim>\<open>main.py\<close> meets it:
  \<^item> \<open>AGENT_SDK_AVAILABLE\<close>, the flag of \<^verbatim>\<open>agents.py\<close>;
  \<^item> \<open>create_foundry_agents\<close>: the id of the orchestrator when the function returns the
    dictionary of the four agents, \<open>None\<close> when it returns \<^verbatim>\<open>{}\<close>;
  \<^item> \<open>get_agent_client\<close>: whether a client came back rather than \<^verbatim>\<open>None\<close>;
  \<^item> \<open>create_thread_and_process_run agent_id message\<close>: the finished run, or the exception;
  \<^item> \<open>get_last_message_text_by_role thread\<close>: the last assistant message if any, or the
    exception.
\<close>

record agent_run =
  run_thread_id :: string
  run_ident :: string
  run_status :: string

datatype message = MessageTextValue string | MessageText string | MessageOther string

record hosted =
  AGENT_SDK_AVAILABLE :: bool
  create_foundry_agents :: "string option"
  get_agent_client :: bool
  create_thread_and_process_run :: "string \<Rightarrow> string \<Rightarrow> exn + agent_run"
  get_last_message_text_by_role :: "string \<Rightarrow> exn + message option"

text \<open>The text of a message: \<^verbatim>\<open>.text.value\<close>, else \<^verbatim>\<open>str(.text)\<close>, else \<^verbatim>\<open>str\<close> of the message.\<close>

fun message_text :: "message \<Rightarrow> string" where
  "message_text (MessageTextValue s) = s"
| "message_text (MessageText s) = s"
| "message_text (MessageOther s) = s"

definition user_message :: "string \<Rightarrow> string option \<Rightarrow> string" where
  "user_message prompt codebase_path =
     prompt @ [nl, nl] @ ''Codebase: ''
     @ (case codebase_path of
          None \<Rightarrow> ''Template mode - no codebase provided''
        | Some p \<Rightarrow> if p \<noteq> [] then p else ''Template mode - no codebase provided'')
     @ [nl, nl]
     @ ''Generate comprehensive documentation with BRD, FRD, NFRD, Security docs, and Architecture overview.''"

text \<open>
  The \<^verbatim>\<open>try\<close> block of \<^verbatim>\<open>run_docagent_workflow\<close>. The inner \<^verbatim>\<open>try\<close> around the rendering
  keeps \<^verbatim>\<open>rendered = []\<close> when the rendering raises.
\<close>

definition hosted_body ::
  "'w tools \<Rightarrow> hosted \<Rightarrow> string \<Rightarrow> string \<Rightarrow> string option \<Rightarrow> 'w
     \<Rightarrow> (exn + workflow_result) \<times> 'w" where
  "hosted_body t h orchestrator_id prompt codebase_path w =
     (case create_thread_and_process_run h orchestrator_id (user_message prompt codebase_path) of
        Inl e \<Rightarrow> (Inl e, w)
      | Inr run \<Rightarrow>
          if run_status run \<noteq> ''completed''
          then (Inr \<lparr>status = ''failed'', error = Some (run_status run), documentation = None,
                     analysis = None, rendered_files = None, thread_id = None, run_id = None,
                     preview = None\<rparr>, w)
          else (case get_last_message_text_by_role h (run_thread_id run) of
                  Inl e \<Rightarrow> (Inl e, w)
                | Inr None \<Rightarrow>
                    (Inr \<lparr>status = ''no_output'', error = None, documentation = None,
                          analysis = None, rendered_files = None, thread_id = None,
                          run_id = None, preview = None\<rparr>, w)
                | Inr (Some m) \<Rightarrow>
                    (let doc = message_text m in
                     case render_documents_advanced t doc ''./outputs'' w of
                       (r, w') \<Rightarrow>
                         (Inr \<lparr>status = ''success'', error = None, documentation = Some doc,
                               analysis = None,
                               rendered_files = Some (case r of Inl e \<Rightarrow> [] | Inr fs \<Rightarrow> fs),
                               thread_id = Some (run_thread_id run),
                               run_id = Some (run_ident run),
                               preview = Some (take 500 doc)\<rparr>, w'))))"

definition run_docagent_workflow ::
  "'w tools \<Rightarrow> hosted \<Rightarrow> string \<Rightarrow> string option \<Rightarrow> 'w \<Rightarrow> workflow_result \<times> 'w" where
  "run_docagent_workflow t h prompt codebase_path w =
     (if \<not> AGENT_SDK_AVAILABLE h then run_fallback_workflow t prompt codebase_path w
      else (case create_foundry_agents h of
              None \<Rightarrow> run_fallback_workflow t prompt codebase_path w
            | Some orchestrator_id \<Rightarrow>
                if \<not> get_agent_client h then run_fallback_workflow t prompt codebase_path w
                else (case hosted_body t h orchestrator_id prompt codebase_path w of
                        (Inl (Exception msg), w') \<Rightarrow> (error_result msg, w')
                      | (Inr res, w') \<Rightarrow> (res, w'))))"

text \<open>The hosted service is unavailable when one of the three tests sends the driver to the fallback.\<close>

definition service_unavailable :: "hosted \<Rightarrow> bool" where
  "service_unavailable h =
     (\<not> AGENT_SDK_AVAILABLE h \<or> create_foundry_agents h = None \<or> \<not> get_agent_client h)"


section \<open>Example inputs\<close>

text \<open>A directory \<open>dir\<close> that holds the one file \<open>file\<close>, with the outcomes of its two reads.\<close>

definition one_file_world :: "string \<Rightarrow> string \<Rightarrow> exn + string \<Rightarrow> exn + string list \<Rightarrow> world" where
  "one_file_world dir file text ls =
     \<lparr>walk = (\<lambda>p. if p = dir then [(dir, [], [file])] else []),
      read_text = (\<lambda>p. if p = path_join dir file then text
                         else Inl (Exception ''No such file or directory'')),
      read_lines = (\<lambda>p. if p = path_join dir file then ls
                          else Inl (Exception ''No such file or directory''))\<rparr>"

text \<open>A directory \<open>dir\<close> with nothing in it.\<close>

definition empty_dir_world :: "string \<Rightarrow> world" where
  "empty_dir_world dir =
     \<lparr>walk = (\<lambda>p. if p = dir then [(dir, [], [])] else []),
      read_text = (\<lambda>p. Inl (Exception ''No such file or directory'')),
      read_lines = (\<lambda>p. Inl (Exception ''No such file or directory''))\<rparr>"

text \<open>An environment in which every write succeeds and the library builds every document.\<close>

definition reliable :: environment where
  "reliable =
     \<lparr>write_text = (\<lambda>path s. Written), build_error = (\<lambda>s. None),
      save_docx = (\<lambda>path doc. Written)\<rparr>"

text \<open>
  Tools whose rendering records each call (the document and the output directory) in the
  state and returns the two paths, or raises \<open>failure\<close> when one is given; no path exists
  and the clock is fixed.
\<close>

definition logging_tools :: "exn option \<Rightarrow> (string \<times> string) list tools" where
  "logging_tools failure =
     \<lparr>path_exists = (\<lambda>p. False),
      analyze_codebase_advanced = (\<lambda>p. Inr NotADict),
      render_documents_advanced =
        (\<lambda>doc dir log.
           (case failure of
              Some e \<Rightarrow> Inl e
            | None \<Rightarrow> Inr [dir @ ''/Documentation_Package.md'',
                           dir @ ''/Documentation_Package.docx''],
            log @ [(doc, dir)])),
      now = ''2026-01-01 00:00:00''\<rparr>"

text \<open>A service without the SDK, and one whose run raises \<open>e\<close>.\<close>

definition no_sdk :: hosted where
  "no_sdk =
     \<lparr>AGENT_SDK_AVAILABLE = False, create_foundry_agents = None, get_agent_client = False,
      create_thread_and_process_run = (\<lambda>a m. Inl (Exception ''unreachable'')),
      get_last_message_text_by_role = (\<lambda>t. Inr None)\<rparr>"

definition failing_service :: "exn \<Rightarrow> hosted" where
  "failing_service e =
     \<lparr>AGENT_SDK_AVAILABLE = True, create_foundry_agents = Some ''asst_1'',
      get_agent_client = True,
      create_thread_and_process_run = (\<lambda>a m. Inl e),
      get_last_message_text_by_role = (\<lambda>t. Inr None)\<rparr>"

section \<open>Properties of the document generator\<close>

lemma render_line_append: "render_line doc line = doc @ render_line [] line"
  by (simp add: render_line_def add_heading_def add_paragraph_def)

lemma foldl_render_line:
  "foldl render_line doc ls = doc @ concat (map (render_line []) ls)"
proof (induction ls arbitrary: doc)
  case Nil
  show ?case by simp
next
  case (Cons l ls)
  have "foldl render_line doc (l # ls) = foldl render_line (render_line doc l) ls" by simp
  also have "\<dots> = render_line doc l @ concat (map (render_line []) ls)" by (rule Cons.IH)
  also have "\<dots> = doc @ concat (map (render_line []) (l # ls))"
    using render_line_append [of doc l] by simp
  finally show ?case .
qed

lemma startswith_iff: "startswith s p \<longleftrightarrow> (\<exists>t. s = p @ t)"
  unfolding startswith_def by (metis append_eq_conv_conj append_take_drop_id)

lemma marker_exclusive:
  "\<not> (startswith line ''# '' \<and> startswith line ''## '')"
  "\<not> (startswith line ''# '' \<and> startswith line ''### '')"
  "\<not> (startswith line ''## '' \<and> startswith line ''### '')"
  by (auto simp: startswith_iff)

lemma find_unique:
  assumes "x \<in> set xs" and "P x" and "\<And>y. y \<in> set xs \<Longrightarrow> P y \<Longrightarrow> y = x"
  shows "find P xs = Some x"
  using assms
proof (induction xs)
  case Nil
  then show ?case by simp
next
  case (Cons a xs)
  show ?case
  proof (cases "P a")
    case True
    have "a = x"
      by (rule Cons.prems(3)) (simp_all add: True)
    with True show ?thesis by simp
  next
    case False
    with Cons.prems(1,2) have mem: "x \<in> set xs" by auto
    have "find P xs = Some x"
    proof (rule Cons.IH [OF mem Cons.prems(2)])
      fix y assume "y \<in> set xs" and "P y"
      then show "y = x" by (intro Cons.prems(3)) simp_all
    qed
    with False show ?thesis by simp
  qed
qed

lemma spec_line_blocks_any_order:
  assumes "set ms = set markers"
  shows "spec_line_blocks ms line = render_line [] line"
proof -
  let ?P = "\<lambda>m. startswith line (fst m)"
  have mem: "\<And>m. m \<in> set ms \<longleftrightarrow> m = (''### '', 3) \<or> m = (''## '', 2) \<or> m = (''# '', 1)"
    using assms by (auto simp: markers_def)
  consider (h1) "startswith line ''# ''" | (h2) "startswith line ''## ''"
    | (h3) "startswith line ''### ''"
    | (none) "\<not> startswith line ''# ''" "\<not> startswith line ''## ''" "\<not> startswith line ''### ''"
    by blast
  then show ?thesis
  proof cases
    case h1
    have "find ?P ms = Some (''# '', 1)"
      using h1 marker_exclusive [of line] by (intro find_unique) (auto simp: mem)
    then show ?thesis using h1 by (simp add: spec_line_blocks_def render_line_def add_heading_def eval_nat_numeral)
  next
    case h2
    have "find ?P ms = Some (''## '', 2)"
      using h2 marker_exclusive [of line] by (intro find_unique) (auto simp: mem)
    then show ?thesis using h2 marker_exclusive [of line]
      by (auto simp add: spec_line_blocks_def render_line_def add_heading_def eval_nat_numeral)
  next
    case h3
    have "find ?P ms = Some (''### '', 3)"
      using h3 marker_exclusive [of line] by (intro find_unique) (auto simp: mem)
    then show ?thesis using h3 marker_exclusive [of line]
      by (auto simp add: spec_line_blocks_def render_line_def add_heading_def eval_nat_numeral)
  next
    case none
    have "find ?P ms = None"
      using none by (auto simp: find_None_iff mem)
    then show ?thesis using none
      by (simp add: spec_line_blocks_def render_line_def add_paragraph_def)
  qed
qed

text \<open>
  Claim C1. The document is its title followed by the blocks of the lines of the content,
  in order. A line starting with \<^verbatim>\<open>### \<close> gives a heading of level 3, one starting with
  \<^verbatim>\<open>## \<close> a heading of level 2, one starting with \<^verbatim>\<open># \<close> a heading of level 1, each
  with the marker removed; every other line gives a plain paragraph when it is not blank and
  nothing when it is, so no other line becomes a heading. The order in which the three
  markers are tried does not matter: trying them in any order gives the blocks the code gives.
\<close>

theorem heading_level_mapping:
  "build_document content =
     Heading 0 ''Documentation Package'' # concat (map (render_line []) (split_on nl content))
   \<and> (\<forall>line.
        (startswith line ''### '' \<longrightarrow> render_line [] line = [Heading 3 (drop 4 line)]) \<and>
        (startswith line ''## '' \<longrightarrow> render_line [] line = [Heading 2 (drop 3 line)]) \<and>
        (startswith line ''# '' \<longrightarrow> render_line [] line = [Heading 1 (drop 2 line)]) \<and>
        (\<not> startswith line ''### '' \<and> \<not> startswith line ''## '' \<and> \<not> startswith line ''# ''
           \<longrightarrow> render_line [] line = (if strip line \<noteq> [] then [Paragraph line] else [])))
   \<and> (\<forall>ms line. set ms = set markers \<longrightarrow> spec_line_blocks ms line = render_line [] line)"
proof (intro conjI allI impI)
  show "build_document content =
     Heading 0 ''Documentation Package'' # concat (map (render_line []) (split_on nl content))"
    by (simp add: build_document_def foldl_render_line add_heading_def)
next
  fix line assume "startswith line ''### ''"
  then show "render_line [] line = [Heading 3 (drop 4 line)]"
    using marker_exclusive [of line] by (auto simp: render_line_def add_heading_def)
next
  fix line assume "startswith line ''## ''"
  then show "render_line [] line = [Heading 2 (drop 3 line)]"
    using marker_exclusive [of line] by (auto simp: render_line_def add_heading_def)
next
  fix line assume "startswith line ''# ''"
  then show "render_line [] line = [Heading 1 (drop 2 line)]"
    by (simp add: render_line_def add_heading_def)
next
  fix line
  assume "\<not> startswith line ''### '' \<and> \<not> startswith line ''## '' \<and> \<not> startswith line ''# ''"
  then show "render_line [] line = (if strip line \<noteq> [] then [Paragraph line] else [])"
    by (simp add: render_line_def add_paragraph_def)
next
  fix ms line assume "set ms = set markers"
  then show "spec_line_blocks ms line = render_line [] line"
    by (rule spec_line_blocks_any_order)
qed

theorem heading_level_mapping_witness:
  "build_document ''# A\<newline>## B\<newline>### C\<newline>#D\<newline>text\<newline>  \<newline>'' =
     [Heading 0 ''Documentation Package'', Heading 1 ''A'', Heading 2 ''B'', Heading 3 ''C'',
      Paragraph ''#D'', Paragraph ''text'']
   \<and> startswith ''### C'' ''### '' \<and> render_line [] ''### C'' = [Heading 3 ''C'']
   \<and> set [(''# '', 1), (''### '', 3), (''## '', 2)] = set markers
   \<and> spec_line_blocks [(''# '', 1), (''### '', 3), (''## '', 2)] ''### C'' = [Heading 3 ''C'']"
proof -
  let ?c = "''# A\<newline>## B\<newline>### C\<newline>#D\<newline>text\<newline>  \<newline>''"
  let ?ms = "[(''# '', 1::nat), (''### '', 3), (''## '', 2)]"
  note hlm = heading_level_mapping [of ?c]
  have lines: "split_on nl ?c = [''# A'', ''## B'', ''### C'', ''#D'', ''text'', ''  '', []]"
    by (simp add: nl_def)
  have s: "startswith ''### C'' ''### ''"
    by (simp add: startswith_def)
  have m: "set ?ms = set markers"
    unfolding markers_def by (simp add: insert_commute)
  have "render_line [] ''### C'' = [Heading 3 (drop 4 ''### C'')]"
    using hlm s by blast
  then have r: "render_line [] ''### C'' = [Heading 3 ''C'']"
    by simp
  have "spec_line_blocks ?ms ''### C'' = render_line [] ''### C''"
    using hlm m by blast
  then have o: "spec_line_blocks ?ms ''### C'' = [Heading 3 ''C'']"
    by (simp only: r)
  have "build_document ?c =
     Heading 0 ''Documentation Package'' # concat (map (render_line []) (split_on nl ?c))"
    using hlm by blast
  then have b: "build_document ?c =
     [Heading 0 ''Documentation Package'', Heading 1 ''A'', Heading 2 ''B'', Heading 3 ''C'',
      Paragraph ''#D'', Paragraph ''text'']"
    unfolding lines
    by (simp add: render_line_def add_heading_def add_paragraph_def startswith_def strip_def
        isspace_def)
  show ?thesis
    using b s r m o by (intro conjI)
qed

lemma run_md_refused:
  assumes "write_text env (name @ ''.md'') content = Refused (Exception msg)"
  shows "generate_documents_run env d content name =
           (Inr ('' Error generating files: '' @ msg), d)"
  using assms
  by (simp add: generate_documents_run_def generate_body_def write_text_file_def Let_def)

lemma run_md_interrupted:
  assumes "write_text env (name @ ''.md'') content = Interrupted left (Exception msg)"
  shows "generate_documents_run env d content name =
           (Inr ('' Error generating files: '' @ msg),
            d(name @ ''.md'' \<mapsto> Text (take left content)))"
  using assms
  by (simp add: generate_documents_run_def generate_body_def write_text_file_def Let_def)

lemma run_build_raises:
  assumes "write_text env (name @ ''.md'') content = Written"
    and "build_error env content = Some (Exception msg)"
  shows "generate_documents_run env d content name =
           (Inr ('' Error generating files: '' @ msg), d(name @ ''.md'' \<mapsto> Text content))"
  using assms
  by (simp add: generate_documents_run_def generate_body_def write_text_file_def Let_def)

lemma run_save_refused:
  assumes "write_text env (name @ ''.md'') content = Written"
    and "build_error env content = None"
    and "save_docx env (name @ ''.docx'') (build_document content) = Refused (Exception msg)"
  shows "generate_documents_run env d content name =
           (Inr ('' Error generating files: '' @ msg), d(name @ ''.md'' \<mapsto> Text content))"
  using assms
  by (simp add: generate_documents_run_def generate_body_def write_text_file_def
      save_document_def Let_def)

lemma run_save_interrupted:
  assumes "write_text env (name @ ''.md'') content = Written"
    and "build_error env content = None"
    and "save_docx env (name @ ''.docx'') (build_document content)
           = Interrupted left (Exception msg)"
  shows "generate_documents_run env d content name =
           (Inr ('' Error generating files: '' @ msg),
            d(name @ ''.md'' \<mapsto> Text content, name @ ''.docx'' \<mapsto> Incomplete))"
  using assms
  by (simp add: generate_documents_run_def generate_body_def write_text_file_def
      save_document_def Let_def)

lemma run_succeeds:
  assumes "write_text env (name @ ''.md'') content = Written"
    and "build_error env content = None"
    and "save_docx env (name @ ''.docx'') (build_document content) = Written"
  shows "generate_documents_run env d content name =
           (Inr (''Files generated successfully:'' @ [nl] @ ''- '' @ name @ ''.md''
                 @ [nl] @ ''- '' @ name @ ''.docx''),
            d(name @ ''.md'' \<mapsto> Text content,
              name @ ''.docx'' \<mapsto> Docx (build_document content)))"
  using assms
  by (simp add: generate_documents_run_def generate_body_def write_text_file_def
      save_document_def Let_def)

lemma build_document_T:
  "build_document ''# T'' = [Heading 0 ''Documentation Package'', Heading 1 ''T'']"
  by (simp add: build_document_def render_line_def add_heading_def startswith_def nl_def)

text \<open>
  Claim C4, as stated, fails: the two writes are not independent. With a markdown file that
  cannot be opened, and a document that would be built and saved without error, the run
  returns a single error string and the document file is not written.
\<close>

theorem render_writes_not_independent:
  "fst (generate_documents_run
          (reliable\<lparr>write_text := (\<lambda>path s. Refused (Exception ''read-only''))\<rparr>)
          Map.empty ''# T'' ''out'')
     = Inr '' Error generating files: read-only''
   \<and> snd (generate_documents_run
          (reliable\<lparr>write_text := (\<lambda>path s. Refused (Exception ''read-only''))\<rparr>)
          Map.empty ''# T'' ''out'') ''out.docx''
     = None
   \<and> build_error (reliable\<lparr>write_text := (\<lambda>path s. Refused (Exception ''read-only''))\<rparr>)
        ''# T'' = None
   \<and> save_docx (reliable\<lparr>write_text := (\<lambda>path s. Refused (Exception ''read-only''))\<rparr>)
        ''out.docx'' (build_document ''# T'') = Written"
  by (simp add: generate_documents_run_def generate_body_def write_text_file_def reliable_def
      Let_def)


text \<open>
  Claim C4, amended. The generator writes the markdown file first and the document second,
  inside one \<^verbatim>\<open>try\<close> block, and returns one string. When the markdown file cannot be opened,
  the string is the error text with the cause and the disk is as it was. When the markdown
  write is interrupted, the string is the error text with the cause, the markdown file
  holds the part that was written, in place of what it held before, and the document is
  not attempted. When the markdown file is written and the document cannot be built or its
  file cannot be opened, the string is the error text with the cause and the markdown file
  stays written. When the save of the document is interrupted, the markdown file stays
  written and the document file is incomplete. When all succeed, the string is the
  confirmation that names both paths, and both files are written.
\<close>

theorem render_outcomes:
  "(write_text env (name @ ''.md'') content = Refused (Exception msg) \<longrightarrow>
      generate_documents_run env d content name =
        (Inr ('' Error generating files: '' @ msg), d))
   \<and> (write_text env (name @ ''.md'') content = Interrupted left (Exception msg) \<longrightarrow>
      generate_documents_run env d content name =
        (Inr ('' Error generating files: '' @ msg),
         d(name @ ''.md'' \<mapsto> Text (take left content))))
   \<and> (write_text env (name @ ''.md'') content = Written
        \<and> build_error env content = Some (Exception msg) \<longrightarrow>
      generate_documents_run env d content name =
        (Inr ('' Error generating files: '' @ msg), d(name @ ''.md'' \<mapsto> Text content)))
   \<and> (write_text env (name @ ''.md'') content = Written
        \<and> build_error env content = None
        \<and> save_docx env (name @ ''.docx'') (build_document content) = Refused (Exception msg)
        \<longrightarrow>
      generate_documents_run env d content name =
        (Inr ('' Error generating files: '' @ msg), d(name @ ''.md'' \<mapsto> Text content)))
   \<and> (write_text env (name @ ''.md'') content = Written
        \<and> build_error env content = None
        \<and> save_docx env (name @ ''.docx'') (build_document content)
            = Interrupted u (Exception msg) \<longrightarrow>
      generate_documents_run env d content name =
        (Inr ('' Error generating files: '' @ msg),
         d(name @ ''.md'' \<mapsto> Text content, name @ ''.docx'' \<mapsto> Incomplete)))
   \<and> (write_text env (name @ ''.md'') content = Written
        \<and> build_error env content = None
        \<and> save_docx env (name @ ''.docx'') (build_document content) = Written \<longrightarrow>
      generate_documents_run env d content name =
        (Inr (''Files generated successfully:'' @ [nl] @ ''- '' @ name @ ''.md''
              @ [nl] @ ''- '' @ name @ ''.docx''),
         d(name @ ''.md'' \<mapsto> Text content,
           name @ ''.docx'' \<mapsto> Docx (build_document content))))"
proof (intro conjI impI)
  assume "write_text env (name @ ''.md'') content = Refused (Exception msg)"
  then show "generate_documents_run env d content name =
        (Inr ('' Error generating files: '' @ msg), d)"
    by (rule run_md_refused)
next
  assume "write_text env (name @ ''.md'') content = Interrupted left (Exception msg)"
  then show "generate_documents_run env d content name =
        (Inr ('' Error generating files: '' @ msg),
         d(name @ ''.md'' \<mapsto> Text (take left content)))"
    by (rule run_md_interrupted)
next
  assume "write_text env (name @ ''.md'') content = Written
        \<and> build_error env content = Some (Exception msg)"
  then show "generate_documents_run env d content name =
        (Inr ('' Error generating files: '' @ msg), d(name @ ''.md'' \<mapsto> Text content))"
    by (intro run_build_raises) simp_all
next
  assume "write_text env (name @ ''.md'') content = Written
        \<and> build_error env content = None
        \<and> save_docx env (name @ ''.docx'') (build_document content) = Refused (Exception msg)"
  then show "generate_documents_run env d content name =
        (Inr ('' Error generating files: '' @ msg), d(name @ ''.md'' \<mapsto> Text content))"
    by (intro run_save_refused) simp_all
next
  assume "write_text env (name @ ''.md'') content = Written
        \<and> build_error env content = None
        \<and> save_docx env (name @ ''.docx'') (build_document content)
            = Interrupted u (Exception msg)"
  then show "generate_documents_run env d content name =
        (Inr ('' Error generating files: '' @ msg),
         d(name @ ''.md'' \<mapsto> Text content, name @ ''.docx'' \<mapsto> Incomplete))"
    by (intro run_save_interrupted [of env name content u msg d]) simp_all
next
  assume "write_text env (name @ ''.md'') content = Written
        \<and> build_error env content = None
        \<and> save_docx env (name @ ''.docx'') (build_document content) = Written"
  then show "generate_documents_run env d content name =
        (Inr (''Files generated successfully:'' @ [nl] @ ''- '' @ name @ ''.md''
              @ [nl] @ ''- '' @ name @ ''.docx''),
         d(name @ ''.md'' \<mapsto> Text content,
           name @ ''.docx'' \<mapsto> Docx (build_document content)))"
    by (intro run_succeeds) simp_all
qed

theorem render_outcomes_witness:
  "generate_documents_run reliable Map.empty ''# T'' ''out'' =
     (Inr (''Files generated successfully:'' @ [nl] @ ''- out.md'' @ [nl] @ ''- out.docx''),
      [''out.md'' \<mapsto> Text ''# T'',
       ''out.docx'' \<mapsto> Docx [Heading 0 ''Documentation Package'', Heading 1 ''T'']])
   \<and> generate_documents_run
         (reliable\<lparr>save_docx := (\<lambda>path doc. Interrupted () (Exception ''disk full''))\<rparr>)
         Map.empty ''# T'' ''out'' =
     (Inr '' Error generating files: disk full'',
      [''out.md'' \<mapsto> Text ''# T'', ''out.docx'' \<mapsto> Incomplete])
   \<and> generate_documents_run
         (reliable\<lparr>build_error := (\<lambda>s. Some (Exception ''not XML compatible''))\<rparr>)
         Map.empty ''# T'' ''out'' =
     (Inr '' Error generating files: not XML compatible'', [''out.md'' \<mapsto> Text ''# T''])
   \<and> generate_documents_run
         (reliable\<lparr>write_text := (\<lambda>path s. Interrupted 2 (Exception ''disk full''))\<rparr>)
         [''out.md'' \<mapsto> Text ''an earlier file''] ''# T'' ''out'' =
     (Inr '' Error generating files: disk full'', [''out.md'' \<mapsto> Text ''# ''])
   \<and> generate_documents_run
         (reliable\<lparr>write_text := (\<lambda>path s. Refused (Exception ''read-only''))\<rparr>)
         [''out.md'' \<mapsto> Text ''an earlier file''] ''# T'' ''out'' =
     (Inr '' Error generating files: read-only'', [''out.md'' \<mapsto> Text ''an earlier file''])"
proof -
  have ok: "generate_documents_run reliable Map.empty ''# T'' ''out'' =
     (Inr (''Files generated successfully:'' @ [nl] @ ''- out.md'' @ [nl] @ ''- out.docx''),
      [''out.md'' \<mapsto> Text ''# T'',
       ''out.docx'' \<mapsto> Docx [Heading 0 ''Documentation Package'', Heading 1 ''T'']])"
    using render_outcomes [of reliable "''out''" "''# T''" "''x''" Map.empty 0 "()"]
    by (simp add: reliable_def build_document_T)
  have save: "generate_documents_run
         (reliable\<lparr>save_docx := (\<lambda>path doc. Interrupted () (Exception ''disk full''))\<rparr>)
         Map.empty ''# T'' ''out'' =
     (Inr '' Error generating files: disk full'',
      [''out.md'' \<mapsto> Text ''# T'', ''out.docx'' \<mapsto> Incomplete])"
    using render_outcomes
      [of "reliable\<lparr>save_docx := (\<lambda>path doc. Interrupted () (Exception ''disk full''))\<rparr>"
        "''out''" "''# T''" "''disk full''" Map.empty 0 "()"]
    by (simp add: reliable_def)
  have build: "generate_documents_run
         (reliable\<lparr>build_error := (\<lambda>s. Some (Exception ''not XML compatible''))\<rparr>)
         Map.empty ''# T'' ''out'' =
     (Inr '' Error generating files: not XML compatible'', [''out.md'' \<mapsto> Text ''# T''])"
    using render_outcomes
      [of "reliable\<lparr>build_error := (\<lambda>s. Some (Exception ''not XML compatible''))\<rparr>"
        "''out''" "''# T''" "''not XML compatible''" Map.empty 0 "()"]
    by (simp add: reliable_def)
  have cut: "generate_documents_run
         (reliable\<lparr>write_text := (\<lambda>path s. Interrupted 2 (Exception ''disk full''))\<rparr>)
         [''out.md'' \<mapsto> Text ''an earlier file''] ''# T'' ''out'' =
     (Inr '' Error generating files: disk full'', [''out.md'' \<mapsto> Text ''# ''])"
    using render_outcomes
      [of "reliable\<lparr>write_text := (\<lambda>path s. Interrupted 2 (Exception ''disk full''))\<rparr>"
        "''out''" "''# T''" "''disk full''" "[''out.md'' \<mapsto> Text ''an earlier file'']" 2 "()"]
    by (simp add: reliable_def)
  have refused: "generate_documents_run
         (reliable\<lparr>write_text := (\<lambda>path s. Refused (Exception ''read-only''))\<rparr>)
         [''out.md'' \<mapsto> Text ''an earlier file''] ''# T'' ''out'' =
     (Inr '' Error generating files: read-only'', [''out.md'' \<mapsto> Text ''an earlier file''])"
    using render_outcomes
      [of "reliable\<lparr>write_text := (\<lambda>path s. Refused (Exception ''read-only''))\<rparr>"
        "''out''" "''# T''" "''read-only''" "[''out.md'' \<mapsto> Text ''an earlier file'']" 0 "()"]
    by (simp add: reliable_def)
  show ?thesis
    using ok save build cut refused by (intro conjI)
qed

lemma fst_generate_documents_run:
  "fst (generate_documents_run env d content name) =
     Inr (case raised (write_text env (name @ ''.md'') content) of
            Some (Exception msg) \<Rightarrow> '' Error generating files: '' @ msg
          | None \<Rightarrow>
              (case build_error env content of
                 Some (Exception msg) \<Rightarrow> '' Error generating files: '' @ msg
               | None \<Rightarrow>
                   (case raised (save_docx env (name @ ''.docx'') (build_document content)) of
                      Some (Exception msg) \<Rightarrow> '' Error generating files: '' @ msg
                    | None \<Rightarrow>
                        ''Files generated successfully:'' @ [nl] @ ''- '' @ name @ ''.md''
                        @ [nl] @ ''- '' @ name @ ''.docx'')))"
  by (simp add: generate_documents_run_def generate_body_def write_text_file_def
      save_document_def Let_def split: write_result.splits option.splits exn.splits)

text \<open>
  Claim C10. For every content, project name, disk and environment, the run returns a
  string and no exception leaves it. When the markdown write raises, the string is the
  error text followed by the description of that exception; when that write succeeds and
  the building of the document raises, the description is that of the building; when both
  succeed and the save raises, it is that of the save; when nothing raises, the string is
  the confirmation.
\<close>

theorem generate_documents_never_raises:
  "(\<exists>s. fst (generate_documents_run env d content name) = Inr s)
   \<and> (\<forall>msg. raised (write_text env (name @ ''.md'') content) = Some (Exception msg) \<longrightarrow>
         fst (generate_documents_run env d content name)
           = Inr ('' Error generating files: '' @ msg))
   \<and> (\<forall>msg. raised (write_text env (name @ ''.md'') content) = None
            \<and> build_error env content = Some (Exception msg) \<longrightarrow>
         fst (generate_documents_run env d content name)
           = Inr ('' Error generating files: '' @ msg))
   \<and> (\<forall>msg. raised (write_text env (name @ ''.md'') content) = None
            \<and> build_error env content = None
            \<and> raised (save_docx env (name @ ''.docx'') (build_document content))
                = Some (Exception msg) \<longrightarrow>
         fst (generate_documents_run env d content name)
           = Inr ('' Error generating files: '' @ msg))
   \<and> (raised (write_text env (name @ ''.md'') content) = None
        \<and> build_error env content = None
        \<and> raised (save_docx env (name @ ''.docx'') (build_document content)) = None \<longrightarrow>
         fst (generate_documents_run env d content name)
           = Inr (''Files generated successfully:'' @ [nl] @ ''- '' @ name @ ''.md''
                  @ [nl] @ ''- '' @ name @ ''.docx''))"
  unfolding fst_generate_documents_run by simp

theorem generate_documents_never_raises_witness:
  "fst (generate_documents_run
          (reliable\<lparr>write_text := (\<lambda>path s. Refused (Exception ''read-only''))\<rparr>)
          Map.empty ''# T'' ''out'')
     = Inr '' Error generating files: read-only''
   \<and> fst (generate_documents_run
          (reliable\<lparr>build_error := (\<lambda>s. Some (Exception ''not XML compatible''))\<rparr>)
          Map.empty ''# T'' ''out'')
     = Inr '' Error generating files: not XML compatible''
   \<and> fst (generate_documents_run
          (reliable\<lparr>save_docx := (\<lambda>path doc. Interrupted () (Exception ''disk full''))\<rparr>)
          Map.empty ''# T'' ''out'')
     = Inr '' Error generating files: disk full''
   \<and> fst (generate_documents_run reliable Map.empty ''# T'' ''out'')
     = Inr (''Files generated successfully:'' @ [nl] @ ''- out.md'' @ [nl] @ ''- out.docx'')"
proof -
  have 1: "fst (generate_documents_run
          (reliable\<lparr>write_text := (\<lambda>path s. Refused (Exception ''read-only''))\<rparr>)
          Map.empty ''# T'' ''out'')
     = Inr '' Error generating files: read-only''"
    using generate_documents_never_raises
      [of "reliable\<lparr>write_text := (\<lambda>path s. Refused (Exception ''read-only''))\<rparr>"
        Map.empty "''# T''" "''out''"]
    by (simp add: reliable_def)
  have 2: "fst (generate_documents_run
          (reliable\<lparr>build_error := (\<lambda>s. Some (Exception ''not XML compatible''))\<rparr>)
          Map.empty ''# T'' ''out'')
     = Inr '' Error generating files: not XML compatible''"
    using generate_documents_never_raises
      [of "reliable\<lparr>build_error := (\<lambda>s. Some (Exception ''not XML compatible''))\<rparr>"
        Map.empty "''# T''" "''out''"]
    by (simp add: reliable_def)
  have 3: "fst (generate_documents_run
          (reliable\<lparr>save_docx := (\<lambda>path doc. Interrupted () (Exception ''disk full''))\<rparr>)
          Map.empty ''# T'' ''out'')
     = Inr '' Error generating files: disk full''"
    using generate_documents_never_raises
      [of "reliable\<lparr>save_docx := (\<lambda>path doc. Interrupted () (Exception ''disk full''))\<rparr>"
        Map.empty "''# T''" "''out''"]
    by (simp add: reliable_def)
  have 4: "fst (generate_documents_run reliable Map.empty ''# T'' ''out'')
     = Inr (''Files generated successfully:'' @ [nl] @ ''- out.md'' @ [nl] @ ''- out.docx'')"
    using generate_documents_never_raises [of reliable Map.empty "''# T''" "''out''"]
    by (simp add: reliable_def)
  show ?thesis
    using 1 2 3 4 by (intro conjI)
qed

section \<open>Properties of the codebase scanner\<close>

lemma py_in_iff: "py_in sub s \<longleftrightarrow> (\<exists>a b. s = a @ sub @ b)"
proof (induction s)
  case Nil
  show ?case by simp
next
  case (Cons c cs)
  show ?case
  proof
    assume "py_in sub (c # cs)"
    then consider "startswith (c # cs) sub" | "py_in sub cs" by auto
    then show "\<exists>a b. c # cs = a @ sub @ b"
    proof cases
      case 1
      then obtain t where "c # cs = sub @ t" by (auto simp: startswith_iff)
      then have "c # cs = [] @ sub @ t" by simp
      then show ?thesis by blast
    next
      case 2
      then obtain a b where "cs = a @ sub @ b" using Cons.IH by blast
      then have "c # cs = (c # a) @ sub @ b" by simp
      then show ?thesis by blast
    qed
  next
    assume "\<exists>a b. c # cs = a @ sub @ b"
    then obtain a b where ab: "c # cs = a @ sub @ b" by blast
    show "py_in sub (c # cs)"
    proof (cases a)
      case Nil
      with ab have "startswith (c # cs) sub" by (auto simp: startswith_iff)
      then show ?thesis by simp
    next
      case (Cons x a')
      with ab have "cs = a' @ sub @ b" by simp
      then have "py_in sub cs" using Cons.IH by blast
      then show ?thesis by simp
    qed
  qed
qed

lemma py_in_lower: "py_in sub s \<Longrightarrow> py_in (lower sub) (lower s)"
  unfolding py_in_iff lower_def by (metis map_append)

lemma py_in_prefix: "py_in (x @ y) s \<Longrightarrow> py_in x s"
  unfolding py_in_iff by (metis append.assoc)

lemma inspect_rest_fields:
  "files (inspect_rest file content r) = files r"
  "endpoints (inspect_rest file content r) = endpoints r"
  "databases (inspect_rest file content r) = databases r"
  by (simp_all add: inspect_rest_def Let_def)

lemma inspect_file_files: "files (inspect_file w path file r) = files r"
  by (simp add: inspect_file_def Let_def inspect_rest_fields split: sum.splits)

lemma scan_file_files:
  "files (scan_file w root r file) =
     files r @ (if eligible file then [path_join root file] else [])"
  by (simp add: scan_file_def Let_def inspect_file_files)

lemma foldl_scan_file_files:
  "files (foldl (scan_file w root) r fs) = files r @ map (path_join root) (filter eligible fs)"
  by (induction fs arbitrary: r) (simp_all add: scan_file_files)

lemma scan_dir_files:
  "files (scan_dir w r t) = files r @ map (path_join (fst t)) (filter eligible (snd (snd t)))"
  by (simp add: scan_dir_def foldl_scan_file_files)

lemma scan_tree_files:
  "files (scan_tree w start r) =
     files r @ concat (map (\<lambda>t. map (path_join (fst t)) (filter eligible (snd (snd t))))
                        (walk w start))"
proof -
  have "files (foldl (scan_dir w) r ts) =
     files r @ concat (map (\<lambda>t. map (path_join (fst t)) (filter eligible (snd (snd t)))) ts)"
    for ts
    by (induction ts arbitrary: r) (simp_all add: scan_dir_files)
  then show ?thesis by (simp add: scan_tree_def)
qed

lemma read_error_inspect:
  assumes "read_error w path"
  shows "endpoints (inspect_file w path file r) = endpoints r"
    and "auth_methods (inspect_file w path file r) = auth_methods r"
    and "security_issues (inspect_file w path file r) = security_issues r"
    and "databases (inspect_file w path file r) = databases r"
  using assms
  by (auto simp: read_error_def inspect_file_def Let_def isl_def split: sum.splits)

lemma path_join_proj_a: "path_join ''proj'' ''a.py'' = ''proj/a.py''"
  by (simp add: path_join_def startswith_def endswith_def)

lemma eligible_a_py: "eligible ''a.py''"
  by (simp add: eligible_def source_extensions_def endswith_def)

lemma proj_not_zip: "\<not> endswith ''proj'' ''.zip''"
  by (simp add: endswith_def)

lemma str_nat_0: "str_nat 0 = ''0''"
  by code_simp

lemma str_nat_1: "str_nat (Suc 0) = ''1''"
  by code_simp

text \<open>
  Claim C3, as stated, fails: a file whose read raises stays in the file list. In a
  directory whose one source file cannot be read, the scan returns a record, and the path
  of that file is in it.
\<close>

theorem unreadable_file_is_listed:
  "read_error (one_file_world ''proj'' ''a.py'' (Inl (Exception ''Permission denied''))
                 (Inl (Exception ''Permission denied''))) ''proj/a.py''
   \<and> fst (analyze_codebase_run (\<lambda>w z d. (None, w))
            (one_file_world ''proj'' ''a.py'' (Inl (Exception ''Permission denied''))
               (Inl (Exception ''Permission denied''))) ''proj'')
     = Inr \<lparr>language = ''unknown'', files = [''proj/a.py''], endpoints = [], auth_methods = [],
            databases = [], security_issues = [],
            architecture = ''1 files | unknown | 0 endpoints''\<rparr>"
  by (simp add: read_error_def one_file_world_def analyze_codebase_run_def path_join_proj_a eligible_a_py proj_not_zip
      scan_tree_def scan_dir_def scan_file_def inspect_file_def summarize_def initial_result_def
      str_nat_0 str_nat_1)


text \<open>
  Claim C3, amended. When a read of an eligible file raises during the scan of a
  directory, no error reaches the caller: the scan returns its record. The path of the
  file is in the file list of the record, since the path is added before the file is
  opened, and the file adds no endpoint, no authentication entry and no security issue.
\<close>

theorem read_error_swallowed:
  assumes "\<not> endswith start ''.zip''"
    and "(root, ds, fs) \<in> set (walk w start)"
    and "file \<in> set fs"
    and "eligible file"
    and "read_error w (path_join root file)"
  shows "(\<exists>r. analyze_codebase_run extractall w start = (Inr r, w)
              \<and> path_join root file \<in> set (files r))
       \<and> files (scan_file w root r0 file) = files r0 @ [path_join root file]
       \<and> endpoints (scan_file w root r0 file) = endpoints r0
       \<and> auth_methods (scan_file w root r0 file) = auth_methods r0
       \<and> security_issues (scan_file w root r0 file) = security_issues r0"
proof -
  let ?r = "summarize (scan_tree w start initial_result)"
  have run: "analyze_codebase_run extractall w start = (Inr ?r, w)"
    using assms(1) by (simp add: analyze_codebase_run_def)
  have "path_join root file \<in> set (map (path_join root) (filter eligible fs))"
    using assms(3,4) by simp
  then have "path_join root file \<in> set (files (scan_tree w start initial_result))"
    unfolding scan_tree_files using assms(2) by force
  then have listed: "path_join root file \<in> set (files ?r)"
    by (simp add: summarize_def)
  have f: "files (scan_file w root r0 file) = files r0 @ [path_join root file]"
    using assms(4) by (simp add: scan_file_files)
  have e: "endpoints (scan_file w root r0 file) = endpoints r0"
    using assms(4) read_error_inspect(1) [OF assms(5)]
    by (simp add: scan_file_def Let_def)
  have a: "auth_methods (scan_file w root r0 file) = auth_methods r0"
    using assms(4) read_error_inspect(2) [OF assms(5)]
    by (simp add: scan_file_def Let_def)
  have s: "security_issues (scan_file w root r0 file) = security_issues r0"
    using assms(4) read_error_inspect(3) [OF assms(5)]
    by (simp add: scan_file_def Let_def)
  from run listed f e a s show ?thesis by blast
qed

theorem read_error_swallowed_witness:
  "\<exists>r. analyze_codebase_run (\<lambda>w z d. (None, w))
          (one_file_world ''proj'' ''a.py'' (Inl (Exception ''Permission denied''))
             (Inl (Exception ''Permission denied''))) ''proj''
        = (Inr r, one_file_world ''proj'' ''a.py'' (Inl (Exception ''Permission denied''))
                    (Inl (Exception ''Permission denied'')))
       \<and> ''proj/a.py'' \<in> set (files r)"
proof -
  let ?w = "one_file_world ''proj'' ''a.py'' (Inl (Exception ''Permission denied''))
              (Inl (Exception ''Permission denied''))"
  have 1: "\<not> endswith ''proj'' ''.zip''"
    by (rule proj_not_zip)
  have 2: "(''proj'', [], [''a.py'']) \<in> set (walk ?w ''proj'')"
    by (simp add: one_file_world_def)
  have 3: "''a.py'' \<in> set [''a.py'']"
    by simp
  have 4: "eligible ''a.py''"
    by (rule eligible_a_py)
  have 5: "read_error ?w (path_join ''proj'' ''a.py'')"
    by (simp add: read_error_def one_file_world_def)
  from read_error_swallowed [OF 1 2 3 4 5, of "\<lambda>w z d. (None, w)" initial_result]
  show ?thesis by (simp add: path_join_proj_a)
qed






lemma inspect_file_same_reads:
  assumes "read_text w2 path = read_text w1 path"
    and "read_lines w2 path = read_lines w1 path"
  shows "inspect_file w2 path file r = inspect_file w1 path file r"
  by (simp only: inspect_file_def assms)

lemma scan_file_same_reads:
  assumes "eligible file \<longrightarrow>
             read_text w2 (path_join root file) = read_text w1 (path_join root file)
             \<and> read_lines w2 (path_join root file) = read_lines w1 (path_join root file)"
  shows "scan_file w2 root r file = scan_file w1 root r file"
  using assms by (auto simp: scan_file_def Let_def intro: inspect_file_same_reads)

lemma scan_dir_same_reads:
  assumes "list_all
             (\<lambda>file. eligible file \<longrightarrow>
                read_text w2 (path_join (fst t) file) = read_text w1 (path_join (fst t) file)
                \<and> read_lines w2 (path_join (fst t) file)
                    = read_lines w1 (path_join (fst t) file))
             (snd (snd t))"
  shows "scan_dir w2 r t = scan_dir w1 r t"
  unfolding scan_dir_def
proof (rule foldl_cong [OF refl refl])
  fix a f
  assume "f \<in> set (snd (snd t))"
  with assms have "eligible f \<longrightarrow>
             read_text w2 (path_join (fst t) f) = read_text w1 (path_join (fst t) f)
             \<and> read_lines w2 (path_join (fst t) f) = read_lines w1 (path_join (fst t) f)"
    by (simp add: list_all_iff)
  then show "scan_file w2 (fst t) a f = scan_file w1 (fst t) a f"
    by (rule scan_file_same_reads)
qed

lemma scan_tree_same_contents:
  assumes "same_contents w1 w2 start"
  shows "scan_tree w2 start r = scan_tree w1 start r"
proof -
  from assms have walk: "walk w2 start = walk w1 start"
    by (simp add: same_contents_def)
  have "foldl (scan_dir w2) r (walk w1 start) = foldl (scan_dir w1) r (walk w1 start)"
  proof (rule foldl_cong [OF refl refl])
    fix a t
    assume "t \<in> set (walk w1 start)"
    with assms have "list_all
             (\<lambda>file. eligible file \<longrightarrow>
                read_text w2 (path_join (fst t) file) = read_text w1 (path_join (fst t) file)
                \<and> read_lines w2 (path_join (fst t) file)
                    = read_lines w1 (path_join (fst t) file))
             (snd (snd t))"
      by (simp add: same_contents_def list_all_iff)
    then show "scan_dir w2 a t = scan_dir w1 a t"
      by (rule scan_dir_same_reads)
  qed
  then show ?thesis
    by (simp add: scan_tree_def walk)
qed

text \<open>
  Claim C7. A scan of a directory (a path that the code does not take for an archive)
  returns a record and leaves the world as it was. A later scan, in any world in which the
  directory holds the same (the same walk, and the same outcome of the reads of each source
  file the walk lists), returns the same record, whatever else differs in that world.
  Two scans in a row return the same record twice.
\<close>

theorem scan_idempotent:
  assumes "\<not> endswith codebase_path ''.zip''"
    and "analyze_codebase_run extractall w codebase_path = (first, w1)"
    and "same_contents w1 w2 codebase_path"
  shows "\<exists>r. first = Inr r
             \<and> w1 = w
             \<and> analyze_codebase_run extractall' w2 codebase_path = (Inr r, w2)
             \<and> scan_twice extractall w codebase_path = (Inr r, Inr r)"
proof -
  let ?r = "summarize (scan_tree w codebase_path initial_result)"
  from assms(1,2) have first: "first = Inr ?r" and w1: "w1 = w"
    by (auto simp: analyze_codebase_run_def)
  from assms(3) w1 have "scan_tree w2 codebase_path initial_result
                       = scan_tree w codebase_path initial_result"
    by (simp add: scan_tree_same_contents)
  with assms(1) have second: "analyze_codebase_run extractall' w2 codebase_path = (Inr ?r, w2)"
    by (simp add: analyze_codebase_run_def)
  from assms(1) have twice: "scan_twice extractall w codebase_path = (Inr ?r, Inr ?r)"
    by (simp add: scan_twice_def analyze_codebase_run_def)
  from first w1 second twice show ?thesis by blast
qed


theorem scan_idempotent_witness:
  "(\<exists>r. analyze_codebase_run (\<lambda>w z d. (None, w))
           (one_file_world ''proj'' ''app.py'' (Inr ''import jwt\<newline>'') (Inr [''import jwt\<newline>'']))
           ''proj''
         = (Inr r, one_file_world ''proj'' ''app.py'' (Inr ''import jwt\<newline>'')
                     (Inr [''import jwt\<newline>'']))
        \<and> fst (analyze_codebase_run (\<lambda>w z d. (Some (Exception ''not an archive''), w))
                 ((one_file_world ''proj'' ''app.py'' (Inr ''import jwt\<newline>'')
                     (Inr [''import jwt\<newline>'']))
                  \<lparr>read_text := (\<lambda>p. if p = ''proj/app.py'' then Inr ''import jwt\<newline>''
                                      else Inr ''a new file elsewhere'')\<rparr>)
                 ''proj'')
          = Inr r
        \<and> scan_twice (\<lambda>w z d. (None, w))
             (one_file_world ''proj'' ''app.py'' (Inr ''import jwt\<newline>'') (Inr [''import jwt\<newline>'']))
             ''proj''
          = (Inr r, Inr r))
   \<and> read_text
         ((one_file_world ''proj'' ''app.py'' (Inr ''import jwt\<newline>'') (Inr [''import jwt\<newline>'']))
          \<lparr>read_text := (\<lambda>p. if p = ''proj/app.py'' then Inr ''import jwt\<newline>''
                              else Inr ''a new file elsewhere'')\<rparr>) ''lib/b.py''
       \<noteq> read_text
           (one_file_world ''proj'' ''app.py'' (Inr ''import jwt\<newline>'') (Inr [''import jwt\<newline>'']))
           ''lib/b.py''"
proof -
  let ?w = "one_file_world ''proj'' ''app.py'' (Inr ''import jwt\<newline>'') (Inr [''import jwt\<newline>''])"
  let ?w2 = "?w\<lparr>read_text := (\<lambda>p. if p = ''proj/app.py'' then Inr ''import jwt\<newline>''
                                   else Inr ''a new file elsewhere'')\<rparr>"
  let ?x = "\<lambda>w z d. (None :: exn option, w :: world)"
  let ?x' = "\<lambda>w z d. (Some (Exception ''not an archive''), w :: world)"
  have 1: "\<not> endswith ''proj'' ''.zip''"
    by (simp add: endswith_def)
  have 2: "analyze_codebase_run ?x ?w ''proj''
             = (fst (analyze_codebase_run ?x ?w ''proj''), ?w)"
    using 1 by (simp add: analyze_codebase_run_def)
  have 3: "same_contents ?w ?w2 ''proj''"
    by (simp add: same_contents_def one_file_world_def path_join_def startswith_def
        endswith_def)
  from scan_idempotent [OF 1 2 3, of ?x']
  obtain r where r: "fst (analyze_codebase_run ?x ?w ''proj'') = Inr r"
    and second: "analyze_codebase_run ?x' ?w2 ''proj'' = (Inr r, ?w2)"
    and twice: "scan_twice ?x ?w ''proj'' = (Inr r, Inr r)"
    by blast
  from 2 r have first: "analyze_codebase_run ?x ?w ''proj'' = (Inr r, ?w)"
    by simp
  from second have second': "fst (analyze_codebase_run ?x' ?w2 ''proj'') = Inr r"
    by simp
  have differ: "read_text ?w2 ''lib/b.py'' \<noteq> read_text ?w ''lib/b.py''"
    by (simp add: one_file_world_def path_join_def startswith_def endswith_def)
  from first second' twice have "\<exists>r. analyze_codebase_run ?x ?w ''proj'' = (Inr r, ?w)
        \<and> fst (analyze_codebase_run ?x' ?w2 ''proj'') = Inr r
        \<and> scan_twice ?x ?w ''proj'' = (Inr r, Inr r)"
    by blast
  with differ show ?thesis by (intro conjI)
qed

lemma scan_tree_no_files:
  assumes "\<forall>t \<in> set (walk w start). snd (snd t) = []"
  shows "scan_tree w start r = r"
proof -
  have "\<forall>t \<in> set ts. snd (snd t) = [] \<Longrightarrow> foldl (scan_dir w) r ts = r" for ts
    by (induction ts arbitrary: r) (simp_all add: scan_dir_def)
  with assms show ?thesis by (simp add: scan_tree_def)
qed

text \<open>
  Claim C8. The scan of a directory in which the walk finds no file returns the initial
  record with its summary: no file, no endpoint, and the architecture summary
  \<^verbatim>\<open>0 files | unknown | 0 endpoints\<close>.
\<close>

theorem scan_empty_directory:
  assumes "\<not> endswith codebase_path ''.zip''"
    and "\<forall>t \<in> set (walk w codebase_path). snd (snd t) = []"
  shows "\<exists>r. analyze_codebase_run extractall w codebase_path = (Inr r, w)
             \<and> files r = [] \<and> endpoints r = []
             \<and> architecture r = ''0 files | unknown | 0 endpoints''
             \<and> r = initial_result\<lparr>architecture := ''0 files | unknown | 0 endpoints''\<rparr>"
proof -
  have "scan_tree w codebase_path initial_result = initial_result"
    using assms(2) by (rule scan_tree_no_files)
  then have "analyze_codebase_run extractall w codebase_path =
               (Inr (summarize initial_result), w)"
    using assms(1) by (simp add: analyze_codebase_run_def)
  moreover have "summarize initial_result =
                   initial_result\<lparr>architecture := ''0 files | unknown | 0 endpoints''\<rparr>"
    by (simp add: summarize_def initial_result_def str_nat_0)
  ultimately show ?thesis by (simp add: initial_result_def)
qed

theorem scan_empty_directory_witness:
  "fst (analyze_codebase_run (\<lambda>w z d. (None, w)) (empty_dir_world ''empty'') ''empty'')
     = Inr \<lparr>language = ''unknown'', files = [], endpoints = [], auth_methods = [],
            databases = [], security_issues = [],
            architecture = ''0 files | unknown | 0 endpoints''\<rparr>"
proof -
  have 1: "\<not> endswith ''empty'' ''.zip''"
    by (simp add: endswith_def)
  have 2: "\<forall>t \<in> set (walk (empty_dir_world ''empty'') ''empty''). snd (snd t) = []"
    by (simp add: empty_dir_world_def)
  from scan_empty_directory [OF 1 2, of "\<lambda>w z d. (None, w)"]
  show ?thesis by (auto simp: initial_result_def)
qed

lemma scan_tree_single:
  assumes "walk w start = [(root, ds, [file])]" and "eligible file"
  shows "scan_tree w start r =
           inspect_file w (path_join root file) file (r\<lparr>files := files r @ [path_join root file]\<rparr>)"
  using assms by (simp add: scan_tree_def scan_dir_def scan_file_def Let_def)

lemma lower_login_marker: "lower ''@app.route('/login')'' = ''@app.route'' @ ''('/login')''"
  by (simp add: lower_def lower_char_def)

lemma lower_jwt: "lower ''jwt'' = ''jwt''"
  by (simp add: lower_def lower_char_def)

text \<open>
  Claim C9, as stated, fails: a file whose content contains \<^verbatim>\<open>@app.route('/login')\<close> and
  \<^verbatim>\<open>jwt\<close> may contain more. With a line \<^verbatim>\<open>password = 1\<close> after them, the file adds a
  security issue.
\<close>

theorem login_file_with_password:
  "fst (analyze_codebase_run (\<lambda>w z d. (None, w))
          (one_file_world ''proj'' ''app.py''
             (Inr ''@app.route('/login')\<newline>jwt\<newline>password = 1'')
             (Inr [''@app.route('/login')\<newline>'', ''jwt\<newline>'', ''password = 1'']))
          ''proj'')
     = Inr \<lparr>language = ''Python Web'', files = [''proj/app.py''], endpoints = [],
            auth_methods = [''OAuth/JWT detected''], databases = [],
            security_issues = [''Possible secret in app.py''],
            architecture = ''1 files | Python Web | 0 endpoints''\<rparr>
   \<and> py_in ''@app.route('/login')'' ''@app.route('/login')\<newline>jwt\<newline>password = 1''
   \<and> py_in ''jwt'' ''@app.route('/login')\<newline>jwt\<newline>password = 1''"
  by (simp add: analyze_codebase_run_def endswith_def one_file_world_def scan_tree_def
      scan_dir_def scan_file_def eligible_def source_extensions_def path_join_def startswith_def
      inspect_file_def Let_def lower_def lower_char_def web_markers_def is_endpoint_line_def
      inspect_rest_def auth_markers_def initial_result_def summarize_def str_nat_0 str_nat_1)

text \<open>
  Claim C9, amended. For a directory with one eligible source file, read without error,
  whose content contains \<^verbatim>\<open>@app.route('/login')\<close> and \<^verbatim>\<open>jwt\<close>, whose lower-cased content
  does not contain \<^verbatim>\<open>express\<close>, and does not contain \<^verbatim>\<open>password\<close> together with \<^verbatim>\<open>=\<close> or
  \<^verbatim>\<open>hardcoded\<close>: the record has the one authentication entry, the language
  \<^verbatim>\<open>Python Web\<close>, and no security issue.
\<close>

theorem login_jwt_file:
  assumes "\<not> endswith codebase_path ''.zip''"
    and "walk w codebase_path = [(root, ds, [file])]"
    and "eligible file"
    and "read_text w (path_join root file) = Inr raw"
    and "py_in ''@app.route('/login')'' raw"
    and "py_in ''jwt'' raw"
    and "read_lines w (path_join root file) = Inr ls"
    and "\<not> py_in ''express'' (lower raw)"
    and "\<not> (py_in ''password'' (lower raw)
            \<and> (py_in ''='' (lower raw) \<or> py_in ''hardcoded'' (lower raw)))"
  shows "\<exists>r. analyze_codebase_run extractall w codebase_path = (Inr r, w)
             \<and> auth_methods r = [''OAuth/JWT detected'']
             \<and> language r = ''Python Web''
             \<and> security_issues r = []"
proof -
  let ?c = "lower raw"
  let ?p = "path_join root file"
  have "py_in (''@app.route'' @ ''('/login')'') ?c"
    using py_in_lower [OF assms(5)] by (simp only: lower_login_marker)
  then have "py_in ''@app.route'' ?c"
    by (rule py_in_prefix)
  then have web: "list_ex (\<lambda>x. py_in x ?c) web_markers"
    by (simp add: web_markers_def)
  have "py_in ''jwt'' ?c"
    using py_in_lower [OF assms(6)] by (simp only: lower_jwt)
  then have auth: "list_ex (\<lambda>x. py_in x ?c) auth_markers"
    by (simp add: auth_markers_def)
  let ?r = "scan_tree w codebase_path initial_result"
  have tree: "?r = inspect_file w ?p file (initial_result\<lparr>files := files initial_result @ [?p]\<rparr>)"
    using assms(2,3) by (rule scan_tree_single)
  have a: "auth_methods ?r = [''OAuth/JWT detected'']"
    unfolding tree using assms(4,7,8,9) web auth
    by (simp add: inspect_file_def inspect_rest_def Let_def initial_result_def)
  have l: "language ?r = ''Python Web''"
    unfolding tree using assms(4,7,8,9) web auth
    by (simp add: inspect_file_def inspect_rest_def Let_def initial_result_def)
  have s: "security_issues ?r = []"
    unfolding tree using assms(4,7,8,9) web auth
    by (simp add: inspect_file_def inspect_rest_def Let_def initial_result_def)
  have "analyze_codebase_run extractall w codebase_path = (Inr (summarize ?r), w)"
    using assms(1) by (simp add: analyze_codebase_run_def)
  with a l s show ?thesis by (simp add: summarize_def)
qed

theorem login_jwt_file_witness:
  "(\<exists>r. analyze_codebase_run (\<lambda>w z d. (None, w))
           (one_file_world ''proj'' ''app.py''
              (Inr ''@app.route('/login')\<newline>jwt'')
              (Inr [''@app.route('/login')\<newline>'', ''jwt'']))
           ''proj''
         = (Inr r, one_file_world ''proj'' ''app.py''
                     (Inr ''@app.route('/login')\<newline>jwt'')
                     (Inr [''@app.route('/login')\<newline>'', ''jwt'']))
        \<and> auth_methods r = [''OAuth/JWT detected'']
        \<and> language r = ''Python Web''
        \<and> security_issues r = [])
   \<and> py_in ''@app.route('/login')'' ''@app.route('/login')\<newline>jwt''
   \<and> py_in ''jwt'' ''@app.route('/login')\<newline>jwt''"
proof -
  let ?raw = "''@app.route('/login')\<newline>jwt''"
  let ?ls = "[''@app.route('/login')\<newline>'', ''jwt'']"
  let ?w = "one_file_world ''proj'' ''app.py'' (Inr ?raw) (Inr ?ls)"
  have 1: "\<not> endswith ''proj'' ''.zip''"
    by (simp add: endswith_def)
  have 2: "walk ?w ''proj'' = [(''proj'', [], [''app.py''])]"
    by (simp add: one_file_world_def)
  have 3: "eligible ''app.py''"
    by (simp add: eligible_def source_extensions_def endswith_def)
  have 4: "read_text ?w (path_join ''proj'' ''app.py'') = Inr ?raw"
    by (simp add: one_file_world_def)
  have 5: "py_in ''@app.route('/login')'' ?raw"
    by (simp add: startswith_def)
  have 6: "py_in ''jwt'' ?raw"
    by (simp add: startswith_def)
  have 7: "read_lines ?w (path_join ''proj'' ''app.py'') = Inr ?ls"
    by (simp add: one_file_world_def)
  have 8: "\<not> py_in ''express'' (lower ?raw)"
    by (simp add: lower_def lower_char_def startswith_def)
  have 9: "\<not> (py_in ''password'' (lower ?raw)
            \<and> (py_in ''='' (lower ?raw) \<or> py_in ''hardcoded'' (lower ?raw)))"
    by (simp add: lower_def lower_char_def startswith_def)
  from login_jwt_file [OF 1 2 3 4 5 6 7 8 9, of "\<lambda>w z d. (None, w)"] 5 6
  show ?thesis by (intro conjI)
qed

section \<open>Properties of the workflow driver\<close>

lemma py_in_line:
  assumes "l \<in> set ls"
  shows "py_in l (concat (map (\<lambda>l. l @ [nl]) ls))"
proof -
  from assms obtain xs ys where "ls = xs @ l # ys"
    by (auto simp: in_set_conv_decomp)
  then have "concat (map (\<lambda>l. l @ [nl]) ls) =
               concat (map (\<lambda>l. l @ [nl]) xs) @ l @ (nl # concat (map (\<lambda>l. l @ [nl]) ys))"
    by simp
  then show ?thesis
    unfolding py_in_iff by blast
qed

lemma fallback_headers:
  "''## Business Requirements Document (BRD)'' \<in> set (fallback_lines prompt d date)"
  "''## Functional Requirements Document (FRD)'' \<in> set (fallback_lines prompt d date)"
  "''## Non-Functional Requirements Document (NFRD)'' \<in> set (fallback_lines prompt d date)"
  "''### Security Requirements'' \<in> set (fallback_lines prompt d date)"
  "''## Compliance & Standards'' \<in> set (fallback_lines prompt d date)"
  "''## Architecture Overview'' \<in> set (fallback_lines prompt d date)"
  by (simp_all add: fallback_lines_def)

lemma fallback_documentation_nonempty: "fallback_documentation prompt d date \<noteq> []"
  by (simp add: fallback_documentation_def fallback_lines_def)

lemma unavailable_runs_fallback:
  assumes "service_unavailable h"
  shows "run_docagent_workflow t h prompt codebase_path w =
           run_fallback_workflow t prompt codebase_path w"
  using assms
  by (auto simp: service_unavailable_def run_docagent_workflow_def split: option.splits)

lemma fallback_success:
  assumes "local_analysis t codebase_path = Inr (d, a)"
    and "render_documents_advanced t (fallback_documentation prompt d (now t)) ''./outputs'' w
           = (Inr fs, w')"
  shows "run_fallback_workflow t prompt codebase_path w =
           (\<lparr>status = ''success_fallback'', error = None,
             documentation = Some (fallback_documentation prompt d (now t)),
             analysis = a, rendered_files = Some fs, thread_id = None, run_id = None,
             preview = None\<rparr>, w')"
  using assms by (simp add: run_fallback_workflow_def fallback_body_def Let_def)

lemma fallback_analysis_raises:
  assumes "local_analysis t codebase_path = Inl (Exception msg)"
  shows "run_fallback_workflow t prompt codebase_path w = (error_result msg, w)"
  using assms by (simp add: run_fallback_workflow_def fallback_body_def)

lemma fallback_render_raises:
  assumes "local_analysis t codebase_path = Inr (d, a)"
    and "render_documents_advanced t (fallback_documentation prompt d (now t)) ''./outputs'' w
           = (Inl (Exception msg), w')"
  shows "run_fallback_workflow t prompt codebase_path w = (error_result msg, w')"
  using assms by (simp add: run_fallback_workflow_def fallback_body_def Let_def)


lemma no_sdk_unavailable: "service_unavailable no_sdk"
  by (simp add: service_unavailable_def no_sdk_def)

lemma logging_local_analysis: "local_analysis (logging_tools f) None = Inr (empty_analysis, None)"
  by (simp add: local_analysis_def)

text \<open>
  Claim C2, as stated, fails twice. When the rendering raises, the fallback returns the
  status \<^verbatim>\<open>error\<close>. When it succeeds, the documentation has no header
  \<^verbatim>\<open>Security & Compliance\<close>: the template has \<^verbatim>\<open>### Security Requirements\<close> and
  \<^verbatim>\<open>## Compliance & Standards\<close>.
\<close>

theorem fallback_not_always_success:
  "service_unavailable no_sdk
   \<and> status (fst (run_docagent_workflow (logging_tools (Some (Exception ''disk full''))) no_sdk
                    ''x'' None [])) = ''error''
   \<and> documentation (fst (run_docagent_workflow (logging_tools None) no_sdk ''x'' None []))
       = Some (fallback_documentation ''x'' empty_analysis ''2026-01-01 00:00:00'')
   \<and> \<not> py_in ''Security & Compliance''
           (fallback_documentation ''x'' empty_analysis ''2026-01-01 00:00:00'')"
proof -
  have 1: "status (fst (run_docagent_workflow (logging_tools (Some (Exception ''disk full'')))
                          no_sdk ''x'' None [])) = ''error''"
    by (simp add: run_docagent_workflow_def no_sdk_def run_fallback_workflow_def
        fallback_body_def logging_local_analysis Let_def)
       (simp add: logging_tools_def error_result_def)
  have 2: "documentation (fst (run_docagent_workflow (logging_tools None) no_sdk ''x'' None []))
       = Some (fallback_documentation ''x'' empty_analysis ''2026-01-01 00:00:00'')"
    by (simp add: run_docagent_workflow_def no_sdk_def run_fallback_workflow_def
        fallback_body_def logging_local_analysis Let_def)
       (simp add: logging_tools_def)
  have 3: "\<not> py_in ''Security & Compliance''
           (fallback_documentation ''x'' empty_analysis ''2026-01-01 00:00:00'')"
    by (simp add: fallback_documentation_def fallback_lines_def empty_analysis_def nl_def
        startswith_def)
  from no_sdk_unavailable 1 2 3 show ?thesis by (intro conjI)
qed

text \<open>
  Claim C2, amended. When the hosted service is unavailable, the driver runs the fallback.
  If the local analysis and the rendering do not raise, the result has the status
  \<^verbatim>\<open>success_fallback\<close>, the rendered files, and the documentation built from the template.
  That documentation is never empty and contains the headers
  \<^verbatim>\<open>## Business Requirements Document (BRD)\<close>,
  \<^verbatim>\<open>## Functional Requirements Document (FRD)\<close>,
  \<^verbatim>\<open>## Non-Functional Requirements Document (NFRD)\<close>, \<^verbatim>\<open>### Security Requirements\<close>,
  \<^verbatim>\<open>## Compliance & Standards\<close> and \<^verbatim>\<open>## Architecture Overview\<close>, for every prompt and
  analysis. If the analysis or the rendering raises, the result has the status \<^verbatim>\<open>error\<close>,
  the text of the exception, and no documentation.
\<close>

theorem fallback_when_unavailable:
  assumes "service_unavailable h"
  shows "(\<forall>d a fs w'.
            local_analysis t codebase_path = Inr (d, a)
            \<and> render_documents_advanced t (fallback_documentation prompt d (now t))
                  ''./outputs'' w = (Inr fs, w')
            \<longrightarrow> (\<exists>res. run_docagent_workflow t h prompt codebase_path w = (res, w')
                   \<and> status res = ''success_fallback''
                   \<and> documentation res = Some (fallback_documentation prompt d (now t))
                   \<and> rendered_files res = Some fs))
       \<and> (\<forall>d date.
            fallback_documentation prompt d date \<noteq> []
            \<and> py_in ''## Business Requirements Document (BRD)''
                 (fallback_documentation prompt d date)
            \<and> py_in ''## Functional Requirements Document (FRD)''
                 (fallback_documentation prompt d date)
            \<and> py_in ''## Non-Functional Requirements Document (NFRD)''
                 (fallback_documentation prompt d date)
            \<and> py_in ''### Security Requirements'' (fallback_documentation prompt d date)
            \<and> py_in ''## Compliance & Standards'' (fallback_documentation prompt d date)
            \<and> py_in ''## Architecture Overview'' (fallback_documentation prompt d date))
       \<and> (\<forall>msg.
            local_analysis t codebase_path = Inl (Exception msg)
            \<longrightarrow> (\<exists>res. run_docagent_workflow t h prompt codebase_path w = (res, w)
                   \<and> status res = ''error'' \<and> error res = Some msg
                   \<and> documentation res = None))
       \<and> (\<forall>d a msg w'.
            local_analysis t codebase_path = Inr (d, a)
            \<and> render_documents_advanced t (fallback_documentation prompt d (now t))
                  ''./outputs'' w = (Inl (Exception msg), w')
            \<longrightarrow> (\<exists>res. run_docagent_workflow t h prompt codebase_path w = (res, w')
                   \<and> status res = ''error'' \<and> error res = Some msg
                   \<and> documentation res = None))"
proof (intro conjI allI impI)
  fix d a fs w'
  assume "local_analysis t codebase_path = Inr (d, a)
            \<and> render_documents_advanced t (fallback_documentation prompt d (now t))
                  ''./outputs'' w = (Inr fs, w')"
  then have "run_fallback_workflow t prompt codebase_path w =
           (\<lparr>status = ''success_fallback'', error = None,
             documentation = Some (fallback_documentation prompt d (now t)),
             analysis = a, rendered_files = Some fs, thread_id = None, run_id = None,
             preview = None\<rparr>, w')"
    by (intro fallback_success) simp_all
  then show "\<exists>res. run_docagent_workflow t h prompt codebase_path w = (res, w')
                   \<and> status res = ''success_fallback''
                   \<and> documentation res = Some (fallback_documentation prompt d (now t))
                   \<and> rendered_files res = Some fs"
    by (simp add: unavailable_runs_fallback [OF assms])
next
  fix d date
  show "fallback_documentation prompt d date \<noteq> []"
    by (rule fallback_documentation_nonempty)
  show "py_in ''## Business Requirements Document (BRD)'' (fallback_documentation prompt d date)"
    unfolding fallback_documentation_def by (rule py_in_line) (rule fallback_headers)
  show "py_in ''## Functional Requirements Document (FRD)'' (fallback_documentation prompt d date)"
    unfolding fallback_documentation_def by (rule py_in_line) (rule fallback_headers)
  show "py_in ''## Non-Functional Requirements Document (NFRD)''
          (fallback_documentation prompt d date)"
    unfolding fallback_documentation_def by (rule py_in_line) (rule fallback_headers)
  show "py_in ''### Security Requirements'' (fallback_documentation prompt d date)"
    unfolding fallback_documentation_def by (rule py_in_line) (rule fallback_headers)
  show "py_in ''## Compliance & Standards'' (fallback_documentation prompt d date)"
    unfolding fallback_documentation_def by (rule py_in_line) (rule fallback_headers)
  show "py_in ''## Architecture Overview'' (fallback_documentation prompt d date)"
    unfolding fallback_documentation_def by (rule py_in_line) (rule fallback_headers)
next
  fix msg
  assume "local_analysis t codebase_path = Inl (Exception msg)"
  then have "run_fallback_workflow t prompt codebase_path w = (error_result msg, w)"
    by (rule fallback_analysis_raises)
  then show "\<exists>res. run_docagent_workflow t h prompt codebase_path w = (res, w)
                   \<and> status res = ''error'' \<and> error res = Some msg
                   \<and> documentation res = None"
    by (simp add: unavailable_runs_fallback [OF assms] error_result_def)
next
  fix d a msg w'
  assume "local_analysis t codebase_path = Inr (d, a)
            \<and> render_documents_advanced t (fallback_documentation prompt d (now t))
                  ''./outputs'' w = (Inl (Exception msg), w')"
  then have "run_fallback_workflow t prompt codebase_path w = (error_result msg, w')"
    by (intro fallback_render_raises [of t codebase_path d a]) simp_all
  then show "\<exists>res. run_docagent_workflow t h prompt codebase_path w = (res, w')
                   \<and> status res = ''error'' \<and> error res = Some msg
                   \<and> documentation res = None"
    by (simp add: unavailable_runs_fallback [OF assms] error_result_def)
qed

theorem fallback_when_unavailable_witness:
  "(\<exists>res. run_docagent_workflow (logging_tools None) no_sdk ''x'' None []
            = (res, [(fallback_documentation ''x'' empty_analysis ''2026-01-01 00:00:00'',
                      ''./outputs'')])
          \<and> status res = ''success_fallback''
          \<and> documentation res
              = Some (fallback_documentation ''x'' empty_analysis ''2026-01-01 00:00:00'')
          \<and> rendered_files res = Some [''./outputs/Documentation_Package.md'',
                                         ''./outputs/Documentation_Package.docx''])
   \<and> py_in ''## Architecture Overview''
        (fallback_documentation ''x'' empty_analysis ''2026-01-01 00:00:00'')"
proof -
  let ?doc = "fallback_documentation ''x'' empty_analysis ''2026-01-01 00:00:00''"
  let ?t = "logging_tools None"
  note main = fallback_when_unavailable [OF no_sdk_unavailable, of ?t None "''x''" "[]"]
  have a: "local_analysis ?t None = Inr (empty_analysis, None)"
    by (rule logging_local_analysis)
  have n: "now ?t = ''2026-01-01 00:00:00''"
    by (simp add: logging_tools_def)
  have r: "render_documents_advanced ?t (fallback_documentation ''x'' empty_analysis (now ?t))
             ''./outputs'' []
           = (Inr [''./outputs/Documentation_Package.md'',
                   ''./outputs/Documentation_Package.docx''],
              [(?doc, ''./outputs'')])"
    unfolding n by (simp add: logging_tools_def)
  from main a r
  have "\<exists>res. run_docagent_workflow ?t no_sdk ''x'' None [] = (res, [(?doc, ''./outputs'')])
          \<and> status res = ''success_fallback''
          \<and> documentation res = Some (fallback_documentation ''x'' empty_analysis (now ?t))
          \<and> rendered_files res = Some [''./outputs/Documentation_Package.md'',
                                         ''./outputs/Documentation_Package.docx'']"
    by blast
  then have 1: "\<exists>res. run_docagent_workflow ?t no_sdk ''x'' None [] = (res, [(?doc, ''./outputs'')])
          \<and> status res = ''success_fallback''
          \<and> documentation res = Some ?doc
          \<and> rendered_files res = Some [''./outputs/Documentation_Package.md'',
                                         ''./outputs/Documentation_Package.docx'']"
    unfolding n .
  from main have 2: "py_in ''## Architecture Overview'' ?doc"
    by blast
  from 1 2 show ?thesis by (intro conjI)
qed

text \<open>
  Claim C6. When the driver reaches the hosted service and the call that runs the agent
  pipeline raises, the result has the status \<^verbatim>\<open>error\<close> and the text of the exception, and
  neither documentation nor rendered files. The state the rendering acts on is unchanged,
  whatever the rendering function is: it is not called, and no file is written.
\<close>

theorem hosted_failure_is_error:
  assumes "AGENT_SDK_AVAILABLE h"
    and "create_foundry_agents h = Some orchestrator_id"
    and "get_agent_client h"
    and "create_thread_and_process_run h orchestrator_id (user_message prompt codebase_path)
           = Inl (Exception msg)"
  shows "\<exists>res. run_docagent_workflow t h prompt codebase_path w = (res, w)
             \<and> status res = ''error'' \<and> error res = Some msg
             \<and> documentation res = None \<and> rendered_files res = None"
  using assms
  by (simp add: run_docagent_workflow_def hosted_body_def error_result_def)

theorem hosted_failure_is_error_witness:
  "\<exists>res. run_docagent_workflow (logging_tools None)
            (failing_service (Exception ''connection refused'')) ''Document the API'' None []
          = (res, [])
        \<and> status res = ''error'' \<and> error res = Some ''connection refused''
        \<and> documentation res = None \<and> rendered_files res = None"
proof -
  let ?h = "failing_service (Exception ''connection refused'')"
  have 1: "AGENT_SDK_AVAILABLE ?h"
    by (simp add: failing_service_def)
  have 2: "create_foundry_agents ?h = Some ''asst_1''"
    by (simp add: failing_service_def)
  have 3: "get_agent_client ?h"
    by (simp add: failing_service_def)
  have 4: "create_thread_and_process_run ?h ''asst_1'' (user_message ''Document the API'' None)
             = Inl (Exception ''connection refused'')"
    by (simp add: failing_service_def)
  from hosted_failure_is_error [OF 1 2 3 4, of "logging_tools None" "[]"]
  show ?thesis .
qed

end
